theory Spec2Isabelle
  imports Main
begin

section \<open>Characters and strings\<close>

text \<open>
  A Python \<open>str\<close> is a sequence of code points. The embedding represents a text as a
  \<open>string\<close>, one \<open>char\<close> per code point, which covers the code points 0 to 255.
  The character classes below are the ones Python's \<open>re\<close> module and \<open>str.strip\<close> use
  on a \<open>str\<close>, read on that range.
\<close>

definition is_digit :: "char \<Rightarrow> bool" where
  \<comment> \<open>\<open>\d\<close>: the decimal digits; below 256 these are \<open>0\<close> to \<open>9\<close>.\<close>
  "is_digit c = (c \<in> set ''0123456789'')"

definition is_upper :: "char \<Rightarrow> bool" where
  \<comment> \<open>\<open>[A-Z]\<close>\<close>
  "is_upper c = (c \<in> set ''ABCDEFGHIJKLMNOPQRSTUVWXYZ'')"

definition is_lower :: "char \<Rightarrow> bool" where
  \<comment> \<open>\<open>[a-z]\<close>\<close>
  "is_lower c = (c \<in> set ''abcdefghijklmnopqrstuvwxyz'')"

definition is_alpha :: "char \<Rightarrow> bool" where
  \<comment> \<open>\<open>[a-zA-Z]\<close>\<close>
  "is_alpha c = (is_lower c \<or> is_upper c)"

definition is_space :: "char \<Rightarrow> bool" where
  \<comment> \<open>\<open>\s\<close> and the characters \<open>str.strip()\<close> removes: tab, line feed, vertical tab, form
      feed, carriage return, the separators 0x1C to 0x1F, space, 0x85 and 0xA0.\<close>
  "is_space c = (c \<in> set [CHR 0x09, CHR 0x0A, CHR 0x0B, CHR 0x0C, CHR 0x0D,
                            CHR 0x1C, CHR 0x1D, CHR 0x1E, CHR 0x1F, CHR 0x20,
                            CHR 0x85, CHR 0xA0])"

definition is_word :: "char \<Rightarrow> bool" where
  \<comment> \<open>\<open>\w\<close>: alphanumeric or underscore. Above 127 the alphanumeric code points are
      0xAA, 0xB2, 0xB3, 0xB5, 0xB9, 0xBA, 0xBC to 0xBE, 0xC0 to 0xD6, 0xD8 to 0xF6 and
      0xF8 to 0xFF.\<close>
  "is_word c =
     (is_alpha c \<or> is_digit c \<or> c = CHR ''_'' \<or>
      (let n = (of_char c :: nat)
       in n \<in> set [0xAA, 0xB2, 0xB3, 0xB5, 0xB9, 0xBA, 0xBC, 0xBD, 0xBE] \<or>
          (0xC0 \<le> n \<and> n \<le> 0xD6) \<or> (0xD8 \<le> n \<and> n \<le> 0xF6) \<or> 0xF8 \<le> n))"

definition to_lower :: "char \<Rightarrow> char" where
  \<comment> \<open>The lower-case form used to compare a character with an ASCII pattern character
      under \<open>re.IGNORECASE\<close>: \<open>A\<close> to \<open>Z\<close> go to \<open>a\<close> to \<open>z\<close>, every other character is
      kept.\<close>
  "to_lower c =
     (case map_of (zip ''ABCDEFGHIJKLMNOPQRSTUVWXYZ'' ''abcdefghijklmnopqrstuvwxyz'') c of
        None \<Rightarrow> c
      | Some l \<Rightarrow> l)"

definition strip :: "string \<Rightarrow> string" where
  \<comment> \<open>\<open>str.strip()\<close>\<close>
  "strip s = rev (dropWhile is_space (rev (dropWhile is_space s)))"


section \<open>Regular expressions\<close>

text \<open>
  The patterns of \<open>utils.py\<close> are built from literals, character classes, \<open>?\<close>, \<open>+\<close>,
  \<open>{3,}\<close>, \<open>\b\<close> and one capturing group. A pattern is a term of \<open>re\<close>; \<open>rmatch\<close> is the
  backtracking matcher of Python's \<open>re\<close>: from a position it lists every way the pattern
  can match there, in the order the matcher tries them (greedy alternatives first), so
  the head of the list is the match Python reports.

  A matcher state holds the character before the position (\<open>None\<close> at the start of the
  text), the text from the position on, and the text captured by group 1, if any.
\<close>

type_synonym mstate = "char option \<times> string \<times> string option"

definition prev :: "mstate \<Rightarrow> char option" where
  "prev st = fst st"

definition rest :: "mstate \<Rightarrow> string" where
  "rest st = fst (snd st)"

definition group1 :: "mstate \<Rightarrow> string option" where
  "group1 st = snd (snd st)"

datatype re =
    Eps
  | Chr "char \<Rightarrow> bool"
  | Cat re re
  | Opt re
  | Star re
  | Bnd
  | Grp re

definition at_boundary :: "mstate \<Rightarrow> bool" where
  \<comment> \<open>\<open>\b\<close>: exactly one of the characters before and after the position is a word
      character; the start and the end of the text count as non-word.\<close>
  "at_boundary st =
     ((case prev st of None \<Rightarrow> False | Some c \<Rightarrow> is_word c) \<noteq>
      (case rest st of [] \<Rightarrow> False | c # _ \<Rightarrow> is_word c))"

primrec rstar :: "nat \<Rightarrow> (mstate \<Rightarrow> mstate list) \<Rightarrow> mstate \<Rightarrow> mstate list" where
  \<comment> \<open>Greedy repetition: one more iteration first, then stopping here. An iteration that
      consumes nothing is not repeated. The first argument bounds the iterations by the
      length of the remaining text.\<close>
  "rstar 0 f st = [st]"
| "rstar (Suc n) f st =
     concat (map (\<lambda>st1. if length (rest st1) < length (rest st) then rstar n f st1 else [])
                 (f st)) @ [st]"

primrec rmatch :: "re \<Rightarrow> mstate \<Rightarrow> mstate list" where
  "rmatch Eps st = [st]"
| "rmatch (Chr P) st =
     (case rest st of
        [] \<Rightarrow> []
      | c # cs \<Rightarrow> if P c then [(Some c, cs, group1 st)] else [])"
| "rmatch (Cat a b) st = concat (map (rmatch b) (rmatch a st))"
| "rmatch (Opt a) st = rmatch a st @ [st]"
| "rmatch (Star a) st = rstar (length (rest st)) (rmatch a) st"
| "rmatch Bnd st = (if at_boundary st then [st] else [])"
| "rmatch (Grp a) st =
     map (\<lambda>st1. (prev st1, rest st1,
                  Some (take (length (rest st) - length (rest st1)) (rest st))))
         (rmatch a st)"

definition Plus :: "re \<Rightarrow> re" where
  \<comment> \<open>\<open>a+\<close>\<close>
  "Plus a = Cat a (Star a)"

definition lit_ci :: "string \<Rightarrow> re" where
  \<comment> \<open>A literal compiled with \<open>re.IGNORECASE\<close>.\<close>
  "lit_ci w = foldr (\<lambda>c r. Cat (Chr (\<lambda>x. to_lower x = to_lower c)) r) w Eps"

fun search_from :: "re \<Rightarrow> char option \<Rightarrow> string \<Rightarrow> mstate option" where
  \<comment> \<open>\<open>re.search\<close>: the first position, from the left, where the pattern matches; the
      end of the text is a position too.\<close>
  "search_from r p [] = (case rmatch r (p, [], None) of [] \<Rightarrow> None | m # _ \<Rightarrow> Some m)"
| "search_from r p (c # cs) =
     (case rmatch r (p, c # cs, None) of
        [] \<Rightarrow> search_from r (Some c) cs
      | m # _ \<Rightarrow> Some m)"

definition re_search :: "re \<Rightarrow> string \<Rightarrow> mstate option" where
  "re_search r text = search_from r None text"

function findall_from :: "re \<Rightarrow> char option \<Rightarrow> string \<Rightarrow> string list" where
  \<comment> \<open>\<open>re.findall\<close> for a pattern without groups: the matched texts, left to right,
      without overlap. After a match the scan goes on where the match ended; a match
      that consumed nothing moves the scan one character on.\<close>
  "findall_from r p [] = (case rmatch r (p, [], None) of [] \<Rightarrow> [] | m # _ \<Rightarrow> [[]])"
| "findall_from r p (c # cs) =
     (case rmatch r (p, c # cs, None) of
        [] \<Rightarrow> findall_from r (Some c) cs
      | m # _ \<Rightarrow>
          if length (rest m) < length (c # cs)
          then take (length (c # cs) - length (rest m)) (c # cs) #
               findall_from r (prev m) (rest m)
          else [] # findall_from r (Some c) cs)"
  by pat_completeness auto
termination
  by (relation "measure (\<lambda>(r, p, s). length s)") auto

definition re_findall :: "re \<Rightarrow> string \<Rightarrow> string list" where
  "re_findall r text = findall_from r None text"

definition hindex_re :: re where
  \<comment> \<open>\<open>r"H-?Index[:\s]+(\d+)"\<close> with \<open>re.IGNORECASE\<close>\<close>
  "hindex_re =
     Cat (lit_ci ''H'')
       (Cat (Opt (lit_ci ''-''))
         (Cat (lit_ci ''Index'')
           (Cat (Plus (Chr (\<lambda>c. c = CHR '':'' \<or> is_space c)))
                (Grp (Plus (Chr is_digit))))))"

definition keyword_re :: re where
  \<comment> \<open>\<open>r"\b[A-Z][a-zA-Z]{3,}\b"\<close>\<close>
  "keyword_re =
     Cat Bnd
       (Cat (Chr is_upper)
         (Cat (Chr is_alpha) (Cat (Chr is_alpha) (Cat (Chr is_alpha)
           (Cat (Star (Chr is_alpha)) Bnd)))))"


section \<open>Data model\<close>

text \<open>The three schema classes of \<open>utils.py\<close> and the model configuration.\<close>

record Publication =
  title :: string
  journal :: string
  year :: "int option"

record Grant =
  grant_title :: string
  amount :: "string option"
  grant_year :: "int option"
  sponsor :: "string option"

text \<open>\<open>notes\<close> is a keyword of Isabelle: the field is \<open>notes_field\<close>.\<close>

record CVProfile =
  name :: string
  current_institution :: string
  estimated_ranking :: string
  h_index :: "string option"
  research_focus_keywords :: "string list"
  key_publications :: "Publication list"
  grants :: "Grant list"
  notes_field :: string

record ModelConfig =
  provider :: string
  model :: string
  api_key :: string

text \<open>
  The Python values that reach the schema classes: what \<open>json.loads\<close> returns (\<open>None\<close>,
  booleans, integers, floats, strings, lists and dictionaries with string keys) and
  instances of \<open>Publication\<close> and \<open>Grant\<close>. Floating-point numbers are opaque: nothing
  in the program computes with them. A dictionary is an association list read with
  \<open>map_of\<close>.
\<close>

typedecl pyfloat

datatype pyval =
    PNone
  | PBool bool
  | PInt int
  | PFloat pyfloat
  | PStr string
  | PList "pyval list"
  | PDict "(string \<times> pyval) list"
  | PPublication Publication
  | PGrant Grant

datatype error =
    ValueError string
  | BackendError string
  | ValidationError
  | TypeError

datatype llm =
    ChatOpenAI string string
  | ChatAnthropic string string

datatype message =
    SystemMessage string
  | HumanMessage string

text \<open>
  The collaborators outside the repository are the fields of an environment:
  \<^item> \<open>invoke\<close>: \<open>llm.invoke(messages).content\<close>, the one call that reaches the backend; it
    returns the reply text or fails, and it may change the backend's state \<open>'s\<close>;
  \<^item> \<open>json_loads\<close>: \<open>json.loads\<close>, with \<open>None\<close> when it raises;
  \<^item> \<open>json_dumps\<close>: the JSON text of a value, as \<open>profile.json(indent=2)\<close> writes it;
  \<^item> \<open>str_coerce\<close>, \<open>int_coerce\<close>, \<open>dict_coerce\<close>: what the pydantic validators do with a
    value that is not of the declared type (a number given for a string, a numeric string
    given for an integer, a non-dictionary given for a nested model), with \<open>None\<close> when
    they reject it;
  \<^item> \<open>set_order\<close>: the order in which Python iterates over the set built from the given
    elements;
  \<^item> \<open>dedent\<close>: \<open>textwrap.dedent\<close>.
\<close>

record 's env =
  invoke :: "llm \<Rightarrow> message list \<Rightarrow> 's \<Rightarrow> (error + string) \<times> 's"
  json_loads :: "string \<Rightarrow> pyval option"
  json_dumps :: "pyval \<Rightarrow> string"
  str_coerce :: "pyval \<Rightarrow> string option"
  int_coerce :: "pyval \<Rightarrow> int option"
  dict_coerce :: "pyval \<Rightarrow> (string \<times> pyval) list option"
  set_order :: "string list \<Rightarrow> string list"
  dedent :: "string \<Rightarrow> string"


section \<open>Schema and validation\<close>

text \<open>
  Constructing a schema class validates every keyword argument against the declared
  type of its field (the source uses the pydantic 1 interface, \<open>profile.json(indent=2)\<close>):
  a missing field takes its default, an unknown keyword is ignored, \<open>None\<close> is accepted
  by an \<open>Optional\<close> field only, a value of the declared type is kept as it is, a list
  field accepts a list only and validates each element. Each field validator returns
  \<open>None\<close> when it rejects the value; the construction then raises.
\<close>

definition validate_str :: "'s env \<Rightarrow> pyval \<Rightarrow> string option" where
  \<comment> \<open>a field declared \<open>str\<close>\<close>
  "validate_str env v =
     (case v of PNone \<Rightarrow> None | PStr s \<Rightarrow> Some s | _ \<Rightarrow> str_coerce env v)"

definition validate_opt_str :: "'s env \<Rightarrow> pyval \<Rightarrow> string option option" where
  \<comment> \<open>a field declared \<open>Optional[str]\<close>\<close>
  "validate_opt_str env v =
     (case v of
        PNone \<Rightarrow> Some None
      | PStr s \<Rightarrow> Some (Some s)
      | _ \<Rightarrow> map_option Some (str_coerce env v))"

definition validate_opt_int :: "'s env \<Rightarrow> pyval \<Rightarrow> int option option" where
  \<comment> \<open>a field declared \<open>Optional[int]\<close>\<close>
  "validate_opt_int env v =
     (case v of
        PNone \<Rightarrow> Some None
      | PInt i \<Rightarrow> Some (Some i)
      | _ \<Rightarrow> map_option Some (int_coerce env v))"

definition validate_list :: "(pyval \<Rightarrow> 'a option) \<Rightarrow> pyval \<Rightarrow> 'a list option" where
  \<comment> \<open>a field declared \<open>List[...]\<close>, given the validator of its elements\<close>
  "validate_list f v = (case v of PList vs \<Rightarrow> those (map f vs) | _ \<Rightarrow> None)"

definition with_default :: "'a \<Rightarrow> (pyval \<Rightarrow> 'a option) \<Rightarrow> pyval option \<Rightarrow> 'a option" where
  \<comment> \<open>a field with a default: the default when the keyword is absent\<close>
  "with_default d f x = (case x of None \<Rightarrow> Some d | Some v \<Rightarrow> f v)"

definition Publication_new :: "'s env \<Rightarrow> (string \<times> pyval) list \<Rightarrow> error + Publication" where
  \<comment> \<open>\<open>Publication(**kw)\<close>\<close>
  "Publication_new env kw =
     (case (with_default ''N/A'' (validate_str env) (map_of kw ''title''),
            with_default ''N/A'' (validate_str env) (map_of kw ''journal''),
            with_default None (validate_opt_int env) (map_of kw ''year'')) of
        (Some t, Some j, Some y) \<Rightarrow> Inr \<lparr>title = t, journal = j, year = y\<rparr>
      | _ \<Rightarrow> Inl ValidationError)"

definition Grant_new :: "'s env \<Rightarrow> (string \<times> pyval) list \<Rightarrow> error + Grant" where
  \<comment> \<open>\<open>Grant(**kw)\<close>\<close>
  "Grant_new env kw =
     (case (with_default ''N/A'' (validate_str env) (map_of kw ''title''),
            with_default None (validate_opt_str env) (map_of kw ''amount''),
            with_default None (validate_opt_int env) (map_of kw ''year''),
            with_default None (validate_opt_str env) (map_of kw ''sponsor'')) of
        (Some t, Some a, Some y, Some s) \<Rightarrow>
          Inr \<lparr>grant_title = t, amount = a, grant_year = y, sponsor = s\<rparr>
      | _ \<Rightarrow> Inl ValidationError)"

definition validate_Publication :: "'s env \<Rightarrow> pyval \<Rightarrow> Publication option" where
  \<comment> \<open>an element of a field declared \<open>List[Publication]\<close>: an instance is copied, a
      dictionary is passed to the constructor, anything else is first converted to a
      dictionary\<close>
  "validate_Publication env v =
     (case v of
        PNone \<Rightarrow> None
      | PPublication p \<Rightarrow> Some p
      | PDict kw \<Rightarrow> (case Publication_new env kw of Inl _ \<Rightarrow> None | Inr p \<Rightarrow> Some p)
      | _ \<Rightarrow>
          (case dict_coerce env v of
             None \<Rightarrow> None
           | Some kw \<Rightarrow> (case Publication_new env kw of Inl _ \<Rightarrow> None | Inr p \<Rightarrow> Some p)))"

definition validate_Grant :: "'s env \<Rightarrow> pyval \<Rightarrow> Grant option" where
  \<comment> \<open>an element of a field declared \<open>List[Grant]\<close>\<close>
  "validate_Grant env v =
     (case v of
        PNone \<Rightarrow> None
      | PGrant g \<Rightarrow> Some g
      | PDict kw \<Rightarrow> (case Grant_new env kw of Inl _ \<Rightarrow> None | Inr g \<Rightarrow> Some g)
      | _ \<Rightarrow>
          (case dict_coerce env v of
             None \<Rightarrow> None
           | Some kw \<Rightarrow> (case Grant_new env kw of Inl _ \<Rightarrow> None | Inr g \<Rightarrow> Some g)))"

definition CVProfile_new :: "'s env \<Rightarrow> (string \<times> pyval) list \<Rightarrow> error + CVProfile" where
  \<comment> \<open>\<open>CVProfile(**kw)\<close>\<close>
  "CVProfile_new env kw =
     (case (with_default ''Unknown'' (validate_str env) (map_of kw ''name''),
            with_default ''N/A'' (validate_str env) (map_of kw ''current_institution''),
            with_default ''N/A'' (validate_str env) (map_of kw ''estimated_ranking''),
            with_default None (validate_opt_str env) (map_of kw ''h_index''),
            with_default [] (validate_list (validate_str env))
              (map_of kw ''research_focus_keywords''),
            with_default [] (validate_list (validate_Publication env))
              (map_of kw ''key_publications''),
            with_default [] (validate_list (validate_Grant env)) (map_of kw ''grants''),
            with_default [] (validate_str env) (map_of kw ''notes'')) of
        (Some n, Some ci, Some er, Some h, Some ks, Some ps, Some gs, Some nt) \<Rightarrow>
          Inr \<lparr>name = n, current_institution = ci, estimated_ranking = er, h_index = h,
               research_focus_keywords = ks, key_publications = ps, grants = gs,
               notes_field = nt\<rparr>
      | _ \<Rightarrow> Inl ValidationError)"

definition CVProfile_parsed :: "'s env \<Rightarrow> pyval \<Rightarrow> error + CVProfile" where
  \<comment> \<open>\<open>CVProfile(**parsed)\<close>: unpacking anything but a dictionary is a \<open>TypeError\<close>\<close>
  "CVProfile_parsed env parsed =
     (case parsed of PDict kw \<Rightarrow> CVProfile_new env kw | _ \<Rightarrow> Inl TypeError)"

definition Publication_dict :: "Publication \<Rightarrow> pyval" where
  "Publication_dict p =
     PDict [(''title'', PStr (title p)),
            (''journal'', PStr (journal p)),
            (''year'', case year p of None \<Rightarrow> PNone | Some y \<Rightarrow> PInt y)]"

definition Grant_dict :: "Grant \<Rightarrow> pyval" where
  "Grant_dict g =
     PDict [(''title'', PStr (grant_title g)),
            (''amount'', case amount g of None \<Rightarrow> PNone | Some a \<Rightarrow> PStr a),
            (''year'', case grant_year g of None \<Rightarrow> PNone | Some y \<Rightarrow> PInt y),
            (''sponsor'', case sponsor g of None \<Rightarrow> PNone | Some s \<Rightarrow> PStr s)]"

definition CVProfile_dict :: "CVProfile \<Rightarrow> pyval" where
  \<comment> \<open>The wire shape of a profile: the value whose JSON text \<open>profile.json()\<close> writes.\<close>
  "CVProfile_dict p =
     PDict [(''name'', PStr (name p)),
            (''current_institution'', PStr (current_institution p)),
            (''estimated_ranking'', PStr (estimated_ranking p)),
            (''h_index'', case h_index p of None \<Rightarrow> PNone | Some h \<Rightarrow> PStr h),
            (''research_focus_keywords'', PList (map PStr (research_focus_keywords p))),
            (''key_publications'', PList (map Publication_dict (key_publications p))),
            (''grants'', PList (map Grant_dict (grants p))),
            (''notes'', PStr (notes_field p))]"


section \<open>Prompt templates\<close>

definition nl :: string where
  "nl = [CHR 0x0A]"

definition ind :: string where
  \<comment> \<open>the eight spaces that indent every line of the templates in \<open>prompts.py\<close>\<close>
  "ind = replicate 8 (CHR '' '')"

definition parsing_prompt :: "'s env \<Rightarrow> string" where
  "parsing_prompt env =
     strip (dedent env
       (nl @ ind @ ''You are an expert research administrator. Extract the following fields from the provided CV text.''
        @ nl @ ind @ ''Return a compact JSON with keys: name, current_institution, estimated_ranking, h_index,''
        @ nl @ ind @ ''research_focus_keywords (list), key_publications (list of {title, journal, year}),''
        @ nl @ ind @ ''grants (list of {title, amount, year, sponsor}), notes.''
        @ nl
        @ nl @ ind @ ''Journals of interest include Nature, Science, Cell, and The Lancet. Use N/A when not found.''
        @ nl @ ind))"

definition matching_prompt :: "'s env \<Rightarrow> string \<Rightarrow> string \<Rightarrow> string" where
  "matching_prompt env cv_summary target_direction =
     strip (dedent env
       (nl @ ind @ ''You are assisting a medical research institute to evaluate faculty candidates.''
        @ nl @ ind @ ''Consider the following parsed CV data:'' @ nl @ cv_summary @ nl
        @ nl @ ind @ ''Target research direction: '' @ target_direction
        @ nl
        @ nl @ ind @ ''Provide a JSON with: suitability_score (0-100), reasoning (2-3 sentences),''
        @ nl @ ind @ ''strengths (list), gaps (list), recommended_projects (list of short ideas).''
        @ nl @ ind))"

definition outreach_prompt :: "'s env \<Rightarrow> string \<Rightarrow> string \<Rightarrow> string \<Rightarrow> string" where
  "outreach_prompt env candidate_profile institute_value language =
     strip (dedent env
       (nl @ ind @ ''Write a concise, respectful outreach email to a senior scientist about joining our institute.''
        @ nl @ ind @ ''Use an academic tone and reference specific achievements from the profile below.''
        @ nl
        @ nl @ ind @ ''Candidate profile:'' @ nl @ candidate_profile @ nl
        @ nl @ ind @ ''Institute value proposition: '' @ institute_value
        @ nl @ ind @ ''Language: '' @ language
        @ nl
        @ nl @ ind @ ''Include a specific paper or grant mention to prove personalization.''
        @ nl @ ind))"


section \<open>Heuristic extraction\<close>

definition journals :: "string list" where
  "journals = [''Nature'', ''Science'', ''Cell'', ''Lancet'']"

fun journal_loop ::
  "'s env \<Rightarrow> string \<Rightarrow> string list \<Rightarrow> Publication list \<Rightarrow> error + Publication list" where
  \<comment> \<open>The \<open>for journal in [...]\<close> loop of \<open>heuristic_extract\<close>. The journal name is the
      pattern; none of the four names holds a character that is special in a pattern.\<close>
  "journal_loop env text [] publications = Inr publications"
| "journal_loop env text (j # js) publications =
     (if re_search (lit_ci j) text \<noteq> None
      then (case Publication_new env
                   [(''title'', PStr (''Highlight from '' @ j)),
                    (''journal'', PStr j)] of
              Inl e \<Rightarrow> Inl e
            | Inr p \<Rightarrow> journal_loop env text js (publications @ [p]))
      else journal_loop env text js publications)"

definition heuristic_extract :: "'s env \<Rightarrow> string \<Rightarrow> error + CVProfile" where
  "heuristic_extract env text =
     (let h_index_match = re_search hindex_re text;
          keywords = take 10 (set_order env (map strip (re_findall keyword_re text)))
      in case journal_loop env text journals [] of
           Inl e \<Rightarrow> Inl e
         | Inr publications \<Rightarrow>
             CVProfile_new env
               [(''h_index'',
                   case h_index_match of
                     None \<Rightarrow> PNone
                   | Some m \<Rightarrow> (case group1 m of None \<Rightarrow> PNone | Some g \<Rightarrow> PStr g)),
                (''research_focus_keywords'', PList (map PStr keywords)),
                (''key_publications'', PList (map PPublication publications)),
                (''notes'', PStr ''Heuristic extraction; refine with LLM for richer details.'')])"


section \<open>Adapter and orchestrators\<close>

definition get_llm :: "ModelConfig \<Rightarrow> error + llm" where
  \<comment> \<open>Both clients are built with \<open>temperature=0.2\<close>; building a client reaches no
      backend.\<close>
  "get_llm config =
     (if provider config = ''openai'' then Inr (ChatOpenAI (api_key config) (model config))
      else if provider config = ''anthropic''
      then Inr (ChatAnthropic (api_key config) (model config))
      else Inl (ValueError ''Unsupported provider. Choose 'openai' or 'anthropic'.''))"

definition degradation :: string where
  "degradation = '' | LLM parsing failed to return valid JSON.''"

definition fallback :: "'s env \<Rightarrow> string \<Rightarrow> error + CVProfile" where
  \<comment> \<open>the \<open>except Exception\<close> branch of \<open>llm_structured_parse\<close>\<close>
  "fallback env text =
     (case heuristic_extract env text of
        Inl e \<Rightarrow> Inl e
      | Inr base \<Rightarrow> Inr (base\<lparr>notes_field := notes_field base @ degradation\<rparr>))"

definition llm_structured_parse ::
  "'s env \<Rightarrow> string \<Rightarrow> ModelConfig \<Rightarrow> 's \<Rightarrow> (error + CVProfile) \<times> 's" where
  "llm_structured_parse env text config s =
     (case get_llm config of
        Inl e \<Rightarrow> (Inl e, s)
      | Inr llm \<Rightarrow>
          (case invoke env llm
                  [SystemMessage (parsing_prompt env), HumanMessage (take 12000 text)] s of
             (Inl e, s') \<Rightarrow> (Inl e, s')
           | (Inr content, s') \<Rightarrow>
               (case json_loads env content of
                  None \<Rightarrow> (fallback env text, s')
                | Some parsed \<Rightarrow>
                    (case CVProfile_parsed env parsed of
                       Inl _ \<Rightarrow> (fallback env text, s')
                     | Inr profile \<Rightarrow> (Inr profile, s')))))"

definition degraded_report :: "string \<Rightarrow> pyval" where
  "degraded_report content =
     PDict [(''suitability_score'', PStr ''N/A''),
            (''reasoning'', PStr content),
            (''strengths'', PList []),
            (''gaps'', PList []),
            (''recommended_projects'', PList [])]"

definition generate_match_report ::
  "'s env \<Rightarrow> CVProfile \<Rightarrow> string \<Rightarrow> ModelConfig \<Rightarrow> 's \<Rightarrow> (error + pyval) \<times> 's" where
  "generate_match_report env profile target config s =
     (case get_llm config of
        Inl e \<Rightarrow> (Inl e, s)
      | Inr llm \<Rightarrow>
          (let cv_summary = json_dumps env (CVProfile_dict profile);
               prompt = matching_prompt env cv_summary target
           in case invoke env llm [SystemMessage prompt] s of
                (Inl e, s') \<Rightarrow> (Inl e, s')
              | (Inr content, s') \<Rightarrow>
                  (case json_loads env content of
                     None \<Rightarrow> (Inr (degraded_report content), s')
                   | Some report \<Rightarrow> (Inr report, s'))))"

definition generate_outreach ::
  "'s env \<Rightarrow> CVProfile \<Rightarrow> string \<Rightarrow> string \<Rightarrow> ModelConfig \<Rightarrow> 's \<Rightarrow> (error + string) \<times> 's" where
  "generate_outreach env profile institute_value language config s =
     (case get_llm config of
        Inl e \<Rightarrow> (Inl e, s)
      | Inr llm \<Rightarrow>
          (let candidate_profile = json_dumps env (CVProfile_dict profile);
               prompt = outreach_prompt env candidate_profile institute_value language
           in invoke env llm [SystemMessage prompt] s))"


section \<open>Specification-level definitions\<close>

text \<open>
  The words of the specification, as definitions of their own, to compare the code with.
  A word occurs case-insensitively in a text when some stretch of the text equals the
  word up to the case of its letters.
\<close>

fun prefix_ci :: "string \<Rightarrow> string \<Rightarrow> bool" where
  "prefix_ci [] s = True"
| "prefix_ci (c # cs) [] = False"
| "prefix_ci (c # cs) (x # xs) = (to_lower x = to_lower c \<and> prefix_ci cs xs)"

fun occurs_ci :: "string \<Rightarrow> string \<Rightarrow> bool" where
  "occurs_ci w [] = prefix_ci w []"
| "occurs_ci w (x # xs) = (prefix_ci w (x # xs) \<or> occurs_ci w xs)"

text \<open>
  The H-index rule: \<open>H\<close>, an optional hyphen and \<open>Index\<close> in any case, then one or more
  colons or whitespace characters, then one or more digits; the digit run is captured.
  \<open>hindex_here s\<close> is the run captured when the rule applies at the start of \<open>s\<close>, and
  \<open>first_hindex\<close> takes the leftmost place of the text where it applies.
\<close>

definition is_sep :: "char \<Rightarrow> bool" where
  "is_sep c = (c = CHR '':'' \<or> is_space c)"

definition hindex_here :: "string \<Rightarrow> string option" where
  "hindex_here s =
     (if prefix_ci ''H'' s
      then (let s1 = drop 1 s;
                s2 = (if prefix_ci ''-'' s1 then drop 1 s1 else s1)
            in if prefix_ci ''Index'' s2
               then (let s3 = drop 5 s2;
                         ds = takeWhile is_digit (dropWhile is_sep s3)
                     in if takeWhile is_sep s3 \<noteq> [] \<and> ds \<noteq> [] then Some ds else None)
               else None)
      else None)"

fun first_hindex :: "string \<Rightarrow> string option" where
  "first_hindex [] = None"
| "first_hindex (c # cs) =
     (case hindex_here (c # cs) of None \<Rightarrow> first_hindex cs | Some ds \<Rightarrow> Some ds)"

text \<open>
  The extraction reply schema, read strictly: every field that is present has exactly
  the declared JSON type, and a field that is absent takes the declared default.
\<close>

definition exact_str :: "pyval \<Rightarrow> string option" where
  "exact_str v = (case v of PStr s \<Rightarrow> Some s | _ \<Rightarrow> None)"

definition exact_opt_str :: "pyval \<Rightarrow> string option option" where
  "exact_opt_str v = (case v of PNone \<Rightarrow> Some None | PStr s \<Rightarrow> Some (Some s) | _ \<Rightarrow> None)"

definition exact_opt_int :: "pyval \<Rightarrow> int option option" where
  "exact_opt_int v = (case v of PNone \<Rightarrow> Some None | PInt i \<Rightarrow> Some (Some i) | _ \<Rightarrow> None)"

definition exact_list :: "(pyval \<Rightarrow> 'a option) \<Rightarrow> pyval \<Rightarrow> 'a list option" where
  "exact_list f v = (case v of PList vs \<Rightarrow> those (map f vs) | _ \<Rightarrow> None)"

definition exact_Publication :: "pyval \<Rightarrow> Publication option" where
  "exact_Publication v =
     (case v of
        PDict kw \<Rightarrow>
          (case (with_default ''N/A'' exact_str (map_of kw ''title''),
                 with_default ''N/A'' exact_str (map_of kw ''journal''),
                 with_default None exact_opt_int (map_of kw ''year'')) of
             (Some t, Some j, Some y) \<Rightarrow> Some \<lparr>title = t, journal = j, year = y\<rparr>
           | _ \<Rightarrow> None)
      | _ \<Rightarrow> None)"

definition exact_Grant :: "pyval \<Rightarrow> Grant option" where
  "exact_Grant v =
     (case v of
        PDict kw \<Rightarrow>
          (case (with_default ''N/A'' exact_str (map_of kw ''title''),
                 with_default None exact_opt_str (map_of kw ''amount''),
                 with_default None exact_opt_int (map_of kw ''year''),
                 with_default None exact_opt_str (map_of kw ''sponsor'')) of
             (Some t, Some a, Some y, Some s) \<Rightarrow>
               Some \<lparr>grant_title = t, amount = a, grant_year = y, sponsor = s\<rparr>
           | _ \<Rightarrow> None)
      | _ \<Rightarrow> None)"

definition schema_reply :: "pyval \<Rightarrow> CVProfile option" where
  "schema_reply v =
     (case v of
        PDict kw \<Rightarrow>
          (case (with_default ''Unknown'' exact_str (map_of kw ''name''),
                 with_default ''N/A'' exact_str (map_of kw ''current_institution''),
                 with_default ''N/A'' exact_str (map_of kw ''estimated_ranking''),
                 with_default None exact_opt_str (map_of kw ''h_index''),
                 with_default [] (exact_list exact_str) (map_of kw ''research_focus_keywords''),
                 with_default [] (exact_list exact_Publication) (map_of kw ''key_publications''),
                 with_default [] (exact_list exact_Grant) (map_of kw ''grants''),
                 with_default [] exact_str (map_of kw ''notes'')) of
             (Some n, Some ci, Some er, Some h, Some ks, Some ps, Some gs, Some nt) \<Rightarrow>
               Some \<lparr>name = n, current_institution = ci, estimated_ranking = er, h_index = h,
                     research_focus_keywords = ks, key_publications = ps, grants = gs,
                     notes_field = nt\<rparr>
           | _ \<Rightarrow> None)
      | _ \<Rightarrow> None)"


section \<open>Test doubles\<close>

text \<open>
  A call-counting stub backend: it answers every call with a fixed reply and counts the
  calls in the backend state. Its decoder knows the replies of the examples below, as
  \<open>json.loads\<close> decodes them, and rejects every other text; its validators coerce
  nothing. \<open>failing_env\<close> is the same with a backend that fails on every call.
\<close>

definition stub_loads :: "string \<Rightarrow> pyval option" where
  \<open>stub_loads =
     map_of
       [(''{}'', PDict []),
        (''42'', PInt 42),
        (''{"key_publications": "Nature"}'', PDict [(''key_publications'', PStr ''Nature'')]),
        (''{"name": "Ada Zhang", "h_index": "42", "key_publications": [{"title": "Atlas", "journal": "Science", "year": 2022}]}'',
         PDict [(''name'', PStr ''Ada Zhang''),
                (''h_index'', PStr ''42''),
                (''key_publications'',
                   PList [PDict [(''title'', PStr ''Atlas''),
                                 (''journal'', PStr ''Science''),
                                 (''year'', PInt 2022)]])])]\<close>

definition stub_env :: "string \<Rightarrow> nat env" where
  "stub_env reply =
     \<lparr>invoke = (\<lambda>client messages n. (Inr reply, Suc n)),
      json_loads = stub_loads,
      json_dumps = (\<lambda>v. ''{}''),
      str_coerce = (\<lambda>v. None),
      int_coerce = (\<lambda>v. None),
      dict_coerce = (\<lambda>v. None),
      set_order = remdups,
      dedent = (\<lambda>t. t)\<rparr>"

definition failing_env :: "nat env" where
  "failing_env =
     (stub_env [])\<lparr>invoke := (\<lambda>client messages n. (Inl (BackendError ''rate limit''), Suc n))\<rparr>"

definition openai_config :: ModelConfig where
  "openai_config = \<lparr>provider = ''openai'', model = ''gpt-4o-mini'', api_key = ''sk-test''\<rparr>"

definition unsupported_config :: ModelConfig where
  "unsupported_config =
     \<lparr>provider = ''unsupported-vendor'', model = ''gpt-4o-mini'', api_key = ''sk-test''\<rparr>"

definition unsupported_provider :: error where
  "unsupported_provider = ValueError ''Unsupported provider. Choose 'openai' or 'anthropic'.''"

definition sample_profile :: CVProfile where
  "sample_profile =
     \<lparr>name = ''Dr. Ada Zhang'',
      current_institution = ''Tsinghua University'',
      estimated_ranking = ''Top 20 globally'',
      h_index = Some ''42'',
      research_focus_keywords = [''Immunology'', ''T cell''],
      key_publications =
        [\<lparr>title = ''Checkpoint modulation in solid tumors'', journal = ''Nature'',
          year = Some 2023\<rparr>,
         \<lparr>title = ''Single-cell atlas of immune niches'', journal = ''Science'',
          year = None\<rparr>],
      grants =
        [\<lparr>grant_title = ''NSFC Excellent Young Scientist'', amount = Some ''$500K'',
          grant_year = Some 2021, sponsor = None\<rparr>],
      notes_field = ''demo''\<rparr>"

text \<open>The matcher state \<open>n\<close> characters further on in the text.\<close>

fun advance :: "nat \<Rightarrow> mstate \<Rightarrow> mstate" where
  "advance 0 st = st"
| "advance (Suc n) st =
     (case rest st of [] \<Rightarrow> st | c # cs \<Rightarrow> advance n (Some c, cs, group1 st))"


section \<open>Properties of the matcher\<close>

lemma rest_simp [simp]: "rest (p, s, g) = s"
  by (simp add: rest_def)

lemma group1_simp [simp]: "group1 (p, s, g) = g"
  by (simp add: group1_def)

lemma prev_simp [simp]: "prev (p, s, g) = p"
  by (simp add: prev_def)

lemma rest_advance [simp]: "rest (advance n st) = drop n (rest st)"
  by (induction n arbitrary: st) (auto split: list.splits)

lemma group1_advance [simp]: "group1 (advance n st) = group1 st"
  by (induction n arbitrary: st) (auto split: list.splits)

lemma advance_Cons: "rest st = c # cs \<Longrightarrow> advance (Suc n) st = advance n (Some c, cs, group1 st)"
  by simp

lemma rmatch_lit_ci:
  "rmatch (lit_ci w) st = (if prefix_ci w (rest st) then [advance (length w) st] else [])"
proof (induction w arbitrary: st)
  case Nil
  then show ?case by (simp add: lit_ci_def)
next
  case (Cons c w)
  have unf: "lit_ci (c # w) = Cat (Chr (\<lambda>x. to_lower x = to_lower c)) (lit_ci w)"
    by (simp add: lit_ci_def)
  show ?case
  proof (cases "rest st")
    case Nil
    then show ?thesis by (simp add: unf)
  next
    case (Cons x xs)
    then show ?thesis by (simp add: unf Cons.IH)
  qed
qed

lemma rmatch_Cat_lit_ci:
  "rmatch (Cat (lit_ci w) b) st =
   (if prefix_ci w (rest st) then rmatch b (advance (length w) st) else [])"
  by (simp add: rmatch_lit_ci)

lemma search_from_lit_ci:
  "search_from (lit_ci w) p s = None \<longleftrightarrow> \<not> occurs_ci w s"
  by (induction s arbitrary: p) (simp_all add: rmatch_lit_ci)

lemma re_search_lit_ci: "re_search (lit_ci w) text = None \<longleftrightarrow> \<not> occurs_ci w text"
  by (simp add: re_search_def search_from_lit_ci)

lemma prefix_ci_iff:
  "prefix_ci w s \<longleftrightarrow> length w \<le> length s \<and> map to_lower (take (length w) s) = map to_lower w"
  by (induction w s rule: prefix_ci.induct) auto

lemma occurs_ci_iff:
  "occurs_ci w s \<longleftrightarrow> (\<exists>pre mid post. s = pre @ mid @ post \<and> map to_lower mid = map to_lower w)"
proof (induction s)
  case Nil
  then show ?case by (cases w) auto
next
  case (Cons x xs)
  show ?case
  proof
    assume "occurs_ci w (x # xs)"
    then consider "prefix_ci w (x # xs)" | "occurs_ci w xs" by auto
    then show "\<exists>pre mid post. x # xs = pre @ mid @ post \<and> map to_lower mid = map to_lower w"
    proof cases
      case 1
      then have "x # xs = [] @ take (length w) (x # xs) @ drop (length w) (x # xs)"
        and "map to_lower (take (length w) (x # xs)) = map to_lower w"
        by (simp_all add: prefix_ci_iff)
      then show ?thesis by blast
    next
      case 2
      then obtain pre mid post where "xs = pre @ mid @ post" "map to_lower mid = map to_lower w"
        using Cons.IH by blast
      then have "x # xs = (x # pre) @ mid @ post" by simp
      then show ?thesis using \<open>map to_lower mid = map to_lower w\<close> by blast
    qed
  next
    assume "\<exists>pre mid post. x # xs = pre @ mid @ post \<and> map to_lower mid = map to_lower w"
    then obtain pre mid post where d: "x # xs = pre @ mid @ post"
      and m: "map to_lower mid = map to_lower w" by blast
    show "occurs_ci w (x # xs)"
    proof (cases pre)
      case Nil
      have "length mid = length w" using m by (metis length_map)
      then have "prefix_ci w (x # xs)" using d m Nil by (simp add: prefix_ci_iff)
      then show ?thesis by simp
    next
      case (Cons y ys)
      then have "xs = ys @ mid @ post" using d by simp
      then have "occurs_ci w xs" using Cons.IH m by blast
      then show ?thesis by simp
    qed
  qed
qed

lemma rmatch_Star_Chr:
  "rmatch (Star (Chr P)) st =
   (case rest st of
      [] \<Rightarrow> [st]
    | c # cs \<Rightarrow> if P c then rmatch (Star (Chr P)) (Some c, cs, group1 st) @ [st] else [st])"
  by (cases "rest st") simp_all

lemma advance_takeWhile_Cons:
  "rest st = c # cs \<Longrightarrow> P c \<Longrightarrow>
   advance (length (takeWhile P (rest st))) st
   = advance (length (takeWhile P cs)) (Some c, cs, group1 st)"
  by simp

lemma star_then:
  assumes fail: "\<And>st. (case rest st of [] \<Rightarrow> False | c # _ \<Rightarrow> A c) \<Longrightarrow> rmatch b st = []"
  shows "rmatch (Cat (Star (Chr A)) b) st
         = rmatch b (advance (length (takeWhile A (rest st))) st)"
proof (induction "rest st" arbitrary: st)
  case Nil
  then show ?case by (simp add: rmatch_Star_Chr [of A st] del: rmatch.simps(5))
next
  case (Cons c cs)
  show ?case
  proof (cases "A c")
    case True
    have "rmatch b st = []" using fail [of st] Cons.hyps(2) [symmetric] True by simp
    moreover have "rmatch (Cat (Star (Chr A)) b) (Some c, cs, group1 st)
                   = rmatch b (advance (length (takeWhile A cs)) (Some c, cs, group1 st))"
      using Cons.hyps(1) [of "(Some c, cs, group1 st)"] by simp
    ultimately show ?thesis
      using Cons.hyps(2) [symmetric] True
      by (simp add: rmatch_Star_Chr [of A st] del: rmatch.simps(5))
  next
    case False
    then show ?thesis
      using Cons.hyps(2) [symmetric]
      by (simp add: rmatch_Star_Chr [of A st] del: rmatch.simps(5))
  qed
qed

lemma plus_then:
  assumes fail: "\<And>st. (case rest st of [] \<Rightarrow> False | c # _ \<Rightarrow> A c) \<Longrightarrow> rmatch b st = []"
  shows "rmatch (Cat (Plus (Chr A)) b) st
         = (if takeWhile A (rest st) = [] then []
            else rmatch b (advance (length (takeWhile A (rest st))) st))"
proof (cases "rest st")
  case Nil
  then show ?thesis by (simp add: Plus_def)
next
  case (Cons c cs)
  have "rmatch (Cat (Plus (Chr A)) b) st
        = (if A c then rmatch (Cat (Star (Chr A)) b) (Some c, cs, group1 st) else [])"
    using Cons by (simp add: Plus_def del: rmatch.simps(5))
  moreover have "rmatch (Cat (Star (Chr A)) b) (Some c, cs, group1 st)
                 = rmatch b (advance (length (takeWhile A cs)) (Some c, cs, group1 st))"
    using star_then [of A b "(Some c, cs, group1 st)", OF fail] by simp
  ultimately show ?thesis
    using Cons by (simp del: rmatch.simps)
qed

lemma star_head:
  "\<exists>ms. rmatch (Star (Chr P)) st = advance (length (takeWhile P (rest st))) st # ms"
proof (induction "rest st" arbitrary: st)
  case Nil
  then show ?case by (simp add: rmatch_Star_Chr [of P st] del: rmatch.simps(5))
next
  case (Cons c cs)
  obtain ms where "rmatch (Star (Chr P)) (Some c, cs, group1 st)
                   = advance (length (takeWhile P cs)) (Some c, cs, group1 st) # ms"
    using Cons.hyps(1) [of "(Some c, cs, group1 st)"] by auto
  then show ?case
    using Cons.hyps(2) [symmetric]
    by (simp add: rmatch_Star_Chr [of P st] del: rmatch.simps(5))
qed

lemma take_length_takeWhile: "take (length (takeWhile P s)) s = takeWhile P s"
  by (induction s) simp_all

lemma drop_length_takeWhile: "drop (length (takeWhile P s)) s = dropWhile P s"
  by (induction s) simp_all

lemma length_takeWhile_dropWhile:
  "length (takeWhile P s) + length (dropWhile P s) = length s"
  by (induction s) simp_all

lemma Suc_length_minus_dropWhile:
  "Suc (length s) - length (dropWhile P s) = Suc (length (takeWhile P s))"
  using length_takeWhile_dropWhile [of P s] by arith

lemma group_plus_none:
  "takeWhile D (rest st) = [] \<Longrightarrow> rmatch (Grp (Plus (Chr D))) st = []"
  by (cases "rest st") (auto simp: Plus_def split: if_splits)

lemma group_plus_head:
  assumes "takeWhile D (rest st) \<noteq> []"
  shows "\<exists>q ms. rmatch (Grp (Plus (Chr D))) st
                 = (q, dropWhile D (rest st), Some (takeWhile D (rest st))) # ms"
proof (cases "rest st")
  case Nil
  then show ?thesis using assms by simp
next
  case (Cons c cs)
  then have D: "D c" using assms by (auto split: if_splits)
  obtain ms where ms: "rmatch (Star (Chr D)) (Some c, cs, group1 st)
                   = advance (length (takeWhile D cs)) (Some c, cs, group1 st) # ms"
    using star_head [of D "(Some c, cs, group1 st)"] by auto
  have "rmatch (Plus (Chr D)) st = advance (length (takeWhile D cs)) (Some c, cs, group1 st) # ms"
    using Cons D ms by (simp add: Plus_def del: rmatch.simps(5))
  then show ?thesis
    using Cons D
    by (simp add: drop_length_takeWhile take_length_takeWhile Suc_length_minus_dropWhile)
qed

lemma sep_not_digit: "is_sep c \<Longrightarrow> \<not> is_digit c"
  by (auto simp: is_sep_def is_space_def is_digit_def)

lemma is_sep_eq: "(\<lambda>c. c = CHR '':'' \<or> is_space c) = is_sep"
  by (simp add: is_sep_def fun_eq_iff)

lemma digits_fail_on_sep:
  "(case rest st of [] \<Rightarrow> False | c # _ \<Rightarrow> is_sep c) \<Longrightarrow>
   rmatch (Grp (Plus (Chr is_digit))) st = []"
  by (rule group_plus_none) (auto split: list.splits dest: sep_not_digit)

lemma hyphen_not_Index: "prefix_ci ''-'' s \<Longrightarrow> \<not> prefix_ci ''Index'' s"
  by (cases s) (auto simp: to_lower_def)

lemma sep_digits_match:
  "rmatch (Cat (Plus (Chr is_sep)) (Grp (Plus (Chr is_digit)))) st =
   (if takeWhile is_sep (rest st) = [] then []
    else rmatch (Grp (Plus (Chr is_digit))) (advance (length (takeWhile is_sep (rest st))) st))"
  by (rule plus_then) (rule digits_fail_on_sep)

lemma sep_digits_none:
  assumes "takeWhile is_sep s = [] \<or> takeWhile is_digit (dropWhile is_sep s) = []"
    and "rest st = s"
  shows "rmatch (Cat (Plus (Chr is_sep)) (Grp (Plus (Chr is_digit)))) st = []"
  using assms
  by (auto simp: sep_digits_match drop_length_takeWhile intro!: group_plus_none
           simp del: rmatch.simps)

lemma sep_digits_head:
  assumes "takeWhile is_sep s \<noteq> []" and "takeWhile is_digit (dropWhile is_sep s) \<noteq> []"
    and "rest st = s"
  shows "\<exists>q r ms. rmatch (Cat (Plus (Chr is_sep)) (Grp (Plus (Chr is_digit)))) st
                   = (q, r, Some (takeWhile is_digit (dropWhile is_sep s))) # ms"
proof -
  let ?st = "advance (length (takeWhile is_sep s)) st"
  have r: "rest ?st = dropWhile is_sep s"
    using assms(3) by (simp add: drop_length_takeWhile)
  obtain q ms where "rmatch (Grp (Plus (Chr is_digit))) ?st
      = (q, dropWhile is_digit (rest ?st), Some (takeWhile is_digit (rest ?st))) # ms"
    using group_plus_head [of is_digit ?st] assms(2) r by auto
  then show ?thesis
    using assms(1,3) r by (simp add: sep_digits_match del: rmatch.simps)
qed

lemma rmatch_Cat_Opt:
  "rmatch (Cat (Opt a) b) st = concat (map (rmatch b) (rmatch a st)) @ rmatch b st"
  by simp

lemma opt_hyphen:
  "\<exists>st'. rest st' = drop 5 (if prefix_ci ''-'' (rest st) then drop 1 (rest st) else rest st)
       \<and> rmatch (Cat (Opt (lit_ci ''-'')) (Cat (lit_ci ''Index'') b)) st =
          (if prefix_ci ''Index''
                (if prefix_ci ''-'' (rest st) then drop 1 (rest st) else rest st)
           then rmatch b st' else [])"
proof (cases "prefix_ci ''-'' (rest st)")
  case True
  let ?T = "Cat (lit_ci ''Index'') b"
  let ?st1 = "advance (length ''-'') st"
  have "rmatch (Cat (Opt (lit_ci ''-'')) ?T) st = rmatch ?T ?st1 @ rmatch ?T st"
    using True by (simp add: rmatch_Cat_Opt rmatch_lit_ci del: rmatch.simps advance.simps)
  moreover have "rmatch ?T st = []"
    using hyphen_not_Index [OF True]
    by (simp add: rmatch_Cat_lit_ci del: rmatch.simps advance.simps)
  moreover have "rmatch ?T ?st1 =
      (if prefix_ci ''Index'' (drop 1 (rest st))
       then rmatch b (advance (length ''Index'') ?st1) else [])"
    by (simp add: rmatch_Cat_lit_ci del: rmatch.simps advance.simps)
  moreover have "rest (advance (length ''Index'') ?st1) = drop 5 (drop 1 (rest st))"
    by (simp add: eval_nat_numeral del: advance.simps)
  ultimately show ?thesis
    using True by (intro exI [of _ "advance (length ''Index'') ?st1"]) simp
next
  case False
  let ?T = "Cat (lit_ci ''Index'') b"
  have "rmatch (Cat (Opt (lit_ci ''-'')) ?T) st = rmatch ?T st"
    using False by (simp add: rmatch_Cat_Opt rmatch_lit_ci del: rmatch.simps advance.simps)
  moreover have "rmatch ?T st =
      (if prefix_ci ''Index'' (rest st) then rmatch b (advance (length ''Index'') st) else [])"
    by (simp add: rmatch_Cat_lit_ci del: rmatch.simps advance.simps)
  moreover have "rest (advance (length ''Index'') st) = drop 5 (rest st)"
    by (simp add: eval_nat_numeral del: advance.simps)
  ultimately show ?thesis
    using False by (intro exI [of _ "advance (length ''Index'') st"]) simp
qed

lemma hindex_re_unfold:
  "\<exists>st'. rest st' = drop 5 (if prefix_ci ''-'' (drop 1 (rest st)) then drop 1 (drop 1 (rest st))
                             else drop 1 (rest st))
       \<and> rmatch hindex_re st =
          (if prefix_ci ''H'' (rest st) \<and>
              prefix_ci ''Index''
                (if prefix_ci ''-'' (drop 1 (rest st)) then drop 1 (drop 1 (rest st))
                 else drop 1 (rest st))
           then rmatch (Cat (Plus (Chr is_sep)) (Grp (Plus (Chr is_digit)))) st' else [])"
proof -
  let ?b = "Cat (Plus (Chr is_sep)) (Grp (Plus (Chr is_digit)))"
  let ?st1 = "advance (length ''H'') st"
  have r1: "rest ?st1 = drop 1 (rest st)"
    by (simp del: advance.simps)
  obtain st' where st': "rest st' = drop 5 (if prefix_ci ''-'' (rest ?st1) then drop 1 (rest ?st1)
                                            else rest ?st1)"
    and m: "rmatch (Cat (Opt (lit_ci ''-'')) (Cat (lit_ci ''Index'') ?b)) ?st1 =
            (if prefix_ci ''Index''
                  (if prefix_ci ''-'' (rest ?st1) then drop 1 (rest ?st1) else rest ?st1)
             then rmatch ?b st' else [])"
    using opt_hyphen [of ?st1 ?b] by blast
  have "rmatch hindex_re st =
        (if prefix_ci ''H'' (rest st)
         then rmatch (Cat (Opt (lit_ci ''-'')) (Cat (lit_ci ''Index'') ?b)) ?st1 else [])"
    unfolding hindex_re_def is_sep_eq by (rule rmatch_Cat_lit_ci)
  then show ?thesis
    using st' m unfolding r1 by (intro exI [of _ st']) simp
qed

lemma hindex_match_none:
  assumes "hindex_here (rest st) = None"
  shows "rmatch hindex_re st = []"
proof -
  obtain st' where st': "rest st' = drop 5 (if prefix_ci ''-'' (drop 1 (rest st))
                                            then drop 1 (drop 1 (rest st)) else drop 1 (rest st))"
    and m: "rmatch hindex_re st =
          (if prefix_ci ''H'' (rest st) \<and>
              prefix_ci ''Index''
                (if prefix_ci ''-'' (drop 1 (rest st)) then drop 1 (drop 1 (rest st))
                 else drop 1 (rest st))
           then rmatch (Cat (Plus (Chr is_sep)) (Grp (Plus (Chr is_digit)))) st' else [])"
    using hindex_re_unfold [of st] by blast
  show ?thesis
  proof (cases "prefix_ci ''H'' (rest st) \<and>
              prefix_ci ''Index''
                (if prefix_ci ''-'' (drop 1 (rest st)) then drop 1 (drop 1 (rest st))
                 else drop 1 (rest st))")
    case True
    then have "takeWhile is_sep (rest st') = [] \<or>
               takeWhile is_digit (dropWhile is_sep (rest st')) = []"
      using assms unfolding hindex_here_def Let_def st' by (auto split: if_splits)
    then have "rmatch (Cat (Plus (Chr is_sep)) (Grp (Plus (Chr is_digit)))) st' = []"
      by (rule sep_digits_none) simp
    then show ?thesis using m by simp
  next
    case False
    then show ?thesis using m by auto
  qed
qed

lemma hindex_match_some:
  assumes "hindex_here (rest st) = Some ds"
  shows "\<exists>q r ms. rmatch hindex_re st = (q, r, Some ds) # ms"
proof -
  obtain st' where st': "rest st' = drop 5 (if prefix_ci ''-'' (drop 1 (rest st))
                                            then drop 1 (drop 1 (rest st)) else drop 1 (rest st))"
    and m: "rmatch hindex_re st =
          (if prefix_ci ''H'' (rest st) \<and>
              prefix_ci ''Index''
                (if prefix_ci ''-'' (drop 1 (rest st)) then drop 1 (drop 1 (rest st))
                 else drop 1 (rest st))
           then rmatch (Cat (Plus (Chr is_sep)) (Grp (Plus (Chr is_digit)))) st' else [])"
    using hindex_re_unfold [of st] by blast
  have c: "prefix_ci ''H'' (rest st) \<and>
              prefix_ci ''Index''
                (if prefix_ci ''-'' (drop 1 (rest st)) then drop 1 (drop 1 (rest st))
                 else drop 1 (rest st))"
    and s: "takeWhile is_sep (rest st') \<noteq> []"
    and d: "takeWhile is_digit (dropWhile is_sep (rest st')) \<noteq> []"
    and ds: "ds = takeWhile is_digit (dropWhile is_sep (rest st'))"
    using assms unfolding hindex_here_def Let_def st' by (auto split: if_splits)
  obtain q r ms where
    "rmatch (Cat (Plus (Chr is_sep)) (Grp (Plus (Chr is_digit)))) st' = (q, r, Some ds) # ms"
    using sep_digits_head [OF s d refl] unfolding ds by blast
  then show ?thesis using m c by simp
qed

lemma search_from_hindex:
  "(case search_from hindex_re p s of None \<Rightarrow> None | Some m \<Rightarrow> group1 m) = first_hindex s"
proof (induction s arbitrary: p)
  case Nil
  have "hindex_here (rest (p, [], None)) = None" by (simp add: hindex_here_def)
  then have "rmatch hindex_re (p, [], None) = []" by (rule hindex_match_none)
  then show ?case by simp
next
  case (Cons c cs)
  show ?case
  proof (cases "hindex_here (c # cs)")
    case None
    then have "hindex_here (rest (p, c # cs, None)) = None" by simp
    then have "rmatch hindex_re (p, c # cs, None) = []" by (rule hindex_match_none)
    then show ?thesis using None Cons.IH by simp
  next
    case (Some ds)
    then have "hindex_here (rest (p, c # cs, None)) = Some ds" by simp
    then obtain q r ms where "rmatch hindex_re (p, c # cs, None) = (q, r, Some ds) # ms"
      using hindex_match_some by blast
    then show ?thesis using Some by simp
  qed
qed

lemma re_search_hindex:
  "(case re_search hindex_re text of None \<Rightarrow> None | Some m \<Rightarrow> group1 m) = first_hindex text"
  by (simp add: re_search_def search_from_hindex)


section \<open>Properties of the schema\<close>

lemma those_map_Some:
  "(\<And>x. x \<in> set xs \<Longrightarrow> f (g x) = Some x) \<Longrightarrow> those (map f (map g xs)) = Some xs"
  by (induction xs) simp_all

lemma those_map_mono:
  "those (map f vs) = Some xs \<Longrightarrow> (\<And>v x. f v = Some x \<Longrightarrow> g v = Some x) \<Longrightarrow>
   those (map g vs) = Some xs"
  by (induction vs arbitrary: xs) (auto split: option.splits)

lemma validate_Publication_dict: "validate_Publication env (Publication_dict p) = Some p"
  by (cases "year p")
     (simp_all add: validate_Publication_def Publication_dict_def Publication_new_def
        with_default_def validate_str_def validate_opt_int_def)

lemma validate_Grant_dict: "validate_Grant env (Grant_dict g) = Some g"
  by (cases "amount g"; cases "grant_year g"; cases "sponsor g")
     (simp_all add: validate_Grant_def Grant_dict_def Grant_new_def
        with_default_def validate_str_def validate_opt_int_def validate_opt_str_def)

lemma CVProfile_new_dict: "CVProfile_parsed env (CVProfile_dict p) = Inr p"
proof -
  have ks: "those (map (validate_str env) (map PStr (research_focus_keywords p)))
            = Some (research_focus_keywords p)"
    by (rule those_map_Some) (simp add: validate_str_def)
  have ps: "those (map (validate_Publication env) (map Publication_dict (key_publications p)))
            = Some (key_publications p)"
    by (rule those_map_Some) (simp add: validate_Publication_dict)
  have gs: "those (map (validate_Grant env) (map Grant_dict (grants p))) = Some (grants p)"
    by (rule those_map_Some) (simp add: validate_Grant_dict)
  show ?thesis
    using ks ps gs
    by (cases "h_index p")
       (simp_all add: CVProfile_parsed_def CVProfile_dict_def CVProfile_new_def
          with_default_def validate_str_def validate_opt_str_def validate_list_def)
qed

lemma journal_loop_eq:
  "journal_loop env text js pubs =
   Inr (pubs @ map (\<lambda>j. \<lparr>title = ''Highlight from '' @ j, journal = j, year = None\<rparr>)
                   (filter (\<lambda>j. re_search (lit_ci j) text \<noteq> None) js))"
  by (induction js arbitrary: pubs)
     (simp_all add: Publication_new_def with_default_def validate_str_def)

lemma CVProfile_new_heuristic:
  "CVProfile_new env
     [(''h_index'', (case h of None \<Rightarrow> PNone | Some g \<Rightarrow> PStr g)),
      (''research_focus_keywords'', PList (map PStr ks)),
      (''key_publications'', PList (map PPublication ps)),
      (''notes'', PStr n)]
   = Inr \<lparr>name = ''Unknown'', current_institution = ''N/A'', estimated_ranking = ''N/A'',
          h_index = h, research_focus_keywords = ks, key_publications = ps, grants = [],
          notes_field = n\<rparr>"
proof -
  have ks: "those (map (validate_str env) (map PStr ks)) = Some ks"
    by (rule those_map_Some) (simp add: validate_str_def)
  have ps: "those (map (validate_Publication env) (map PPublication ps)) = Some ps"
    by (rule those_map_Some) (simp add: validate_Publication_def)
  show ?thesis
    using ks ps
    by (cases h)
       (simp_all add: CVProfile_new_def with_default_def validate_list_def
          validate_opt_str_def validate_str_def del: map_map)
qed

lemma heuristic_extract_eq:
  "heuristic_extract env text =
   Inr \<lparr>name = ''Unknown'', current_institution = ''N/A'', estimated_ranking = ''N/A'',
        h_index = (case re_search hindex_re text of None \<Rightarrow> None | Some m \<Rightarrow> group1 m),
        research_focus_keywords =
          take 10 (set_order env (map strip (re_findall keyword_re text))),
        key_publications =
          map (\<lambda>j. \<lparr>title = ''Highlight from '' @ j, journal = j, year = None\<rparr>)
              (filter (\<lambda>j. re_search (lit_ci j) text \<noteq> None) journals),
        grants = [],
        notes_field = ''Heuristic extraction; refine with LLM for richer details.''\<rparr>"
proof -
  have h: "(case re_search hindex_re text of
              None \<Rightarrow> PNone
            | Some m \<Rightarrow> (case group1 m of None \<Rightarrow> PNone | Some g \<Rightarrow> PStr g))
           = (case (case re_search hindex_re text of None \<Rightarrow> None | Some m \<Rightarrow> group1 m) of
                None \<Rightarrow> PNone | Some g \<Rightarrow> PStr g)"
    by (simp split: option.split)
  show ?thesis
    unfolding heuristic_extract_def Let_def journal_loop_eq h
    by (simp only: sum.case append_Nil CVProfile_new_heuristic)
qed

section \<open>The schema\<close>

text \<open>
  C7. Round trip: constructing a profile from the wire shape of a profile \<open>p\<close> (the
  mapping decoded from \<open>p.json()\<close>) gives \<open>p\<close> back, field for field, whatever the
  validators do with values of other types.
\<close>

theorem CVProfile_round_trip: "CVProfile_parsed env (CVProfile_dict p) = Inr p"
  by (rule CVProfile_new_dict)


section \<open>The heuristic extractor\<close>

lemma re_search_lit_ci': "(re_search (lit_ci w) text \<noteq> None) = occurs_ci w text"
  by (simp add: re_search_lit_ci)

lemma filter_journal_absent:
  "j \<notin> set js \<Longrightarrow>
   filter (\<lambda>pub. journal pub = j)
     (map (\<lambda>j. \<lparr>title = ''Highlight from '' @ j, journal = j, year = None\<rparr>) (filter P js)) = []"
  by (induction js) auto

lemma filter_journal_present:
  "distinct js \<Longrightarrow> j \<in> set js \<Longrightarrow>
   filter (\<lambda>pub. journal pub = j)
     (map (\<lambda>j. \<lparr>title = ''Highlight from '' @ j, journal = j, year = None\<rparr>) (filter P js))
   = (if P j then [\<lparr>title = ''Highlight from '' @ j, journal = j, year = None\<rparr>] else [])"
proof (induction js)
  case Nil
  then show ?case by simp
next
  case (Cons a js)
  show ?case
  proof (cases "a = j")
    case True
    then have "j \<notin> set js" using Cons.prems(1) by simp
    then show ?thesis using True filter_journal_absent [of j js P] by simp
  next
    case False
    then show ?thesis using Cons by simp
  qed
qed

lemma distinct_journals: "distinct journals"
  by (simp add: journals_def)

text \<open>
  C3. For every text, the empty one included, \<open>heuristic_extract\<close> returns a profile and
  raises nothing: neither of the two constructors it calls rejects its arguments. Every
  field of the profile is set: the name and the two institution fields hold their
  sentinels, the H-index is the captured digit run or \<open>None\<close>, the keywords are at most
  ten strings, there is one publication for each journal name that occurs in the text,
  the grants are empty, the notes hold the fixed literal, and the profile passes the
  schema again when it is written in its wire shape.
\<close>

theorem heuristic_extract_total:
  "\<exists>p. heuristic_extract env text = Inr p
     \<and> name p = ''Unknown''
     \<and> current_institution p = ''N/A''
     \<and> estimated_ranking p = ''N/A''
     \<and> h_index p = first_hindex text
     \<and> research_focus_keywords p
         = take 10 (set_order env (map strip (re_findall keyword_re text)))
     \<and> key_publications p
         = map (\<lambda>j. \<lparr>title = ''Highlight from '' @ j, journal = j, year = None\<rparr>)
               (filter (\<lambda>j. occurs_ci j text) journals)
     \<and> grants p = []
     \<and> notes_field p = ''Heuristic extraction; refine with LLM for richer details.''
     \<and> CVProfile_parsed env (CVProfile_dict p) = Inr p"
  unfolding heuristic_extract_eq re_search_hindex re_search_lit_ci'
  by (simp add: CVProfile_new_dict)

text \<open>
  C4. For each of the four journal names: when the name occurs in the text, in any
  case, the profile holds exactly one publication with that journal, titled
  \<open>Highlight from\<close> followed by the name and without a year; when it does not occur, the
  profile holds no publication with that journal.
\<close>

theorem heuristic_extract_journals:
  assumes "j \<in> set journals" and "heuristic_extract env text = Inr p"
  shows "filter (\<lambda>pub. journal pub = j) (key_publications p)
         = (if occurs_ci j text
            then [\<lparr>title = ''Highlight from '' @ j, journal = j, year = None\<rparr>]
            else [])"
proof -
  have "key_publications p
        = map (\<lambda>j. \<lparr>title = ''Highlight from '' @ j, journal = j, year = None\<rparr>)
              (filter (\<lambda>j. occurs_ci j text) journals)"
    using assms(2) unfolding heuristic_extract_eq re_search_lit_ci' by auto
  then show ?thesis
    using filter_journal_present [OF distinct_journals assms(1), of "\<lambda>j. occurs_ci j text"]
    by simp
qed

theorem heuristic_extract_journals_witness:
  "''Science'' \<in> set journals \<and> ''Cell'' \<in> set journals
   \<and> occurs_ci ''Science'' ''In SCIENCE and Nature.''
   \<and> \<not> occurs_ci ''Cell'' ''In SCIENCE and Nature.''
   \<and> (\<exists>p. heuristic_extract (stub_env ''{}'') ''In SCIENCE and Nature.'' = Inr p
        \<and> filter (\<lambda>pub. journal pub = ''Science'') (key_publications p)
           = [\<lparr>title = ''Highlight from Science'', journal = ''Science'', year = None\<rparr>]
        \<and> filter (\<lambda>pub. journal pub = ''Cell'') (key_publications p) = [])"
proof -
  have a: "''Science'' \<in> set journals" and b: "''Cell'' \<in> set journals"
    by (simp_all add: journals_def)
  have c: "occurs_ci ''Science'' ''In SCIENCE and Nature.''"
    by code_simp
  have d: "\<not> occurs_ci ''Cell'' ''In SCIENCE and Nature.''"
    by code_simp
  obtain p where p: "heuristic_extract (stub_env ''{}'') ''In SCIENCE and Nature.'' = Inr p"
    using heuristic_extract_eq [of "stub_env ''{}''" "''In SCIENCE and Nature.''"] by (rule that)
  have e: "filter (\<lambda>pub. journal pub = ''Science'') (key_publications p)
           = [\<lparr>title = ''Highlight from Science'', journal = ''Science'', year = None\<rparr>]"
    using heuristic_extract_journals [OF a p] c by (simp only: if_True append.simps)
  have f: "filter (\<lambda>pub. journal pub = ''Cell'') (key_publications p) = []"
    using heuristic_extract_journals [OF b p] d by (simp only: if_False)
  show ?thesis
    by (intro conjI exI [of _ p]) (rule a b c d p e f)+
qed

lemma to_lower_cases: "to_lower c = c \<or> is_lower (to_lower c)"
proof (cases "map_of (zip ''ABCDEFGHIJKLMNOPQRSTUVWXYZ'' ''abcdefghijklmnopqrstuvwxyz'') c")
  case None
  then show ?thesis by (simp add: to_lower_def)
next
  case (Some l)
  then have "l \<in> set ''abcdefghijklmnopqrstuvwxyz''"
    by (meson map_of_SomeD set_zip_rightD)
  then show ?thesis using Some by (simp add: to_lower_def is_lower_def)
qed

lemma to_lower_eq_nonletter: "\<not> is_lower d \<Longrightarrow> to_lower c = d \<Longrightarrow> c = d"
  using to_lower_cases [of c] by auto

lemma first_hindex_skip:
  "(\<forall>i < length pre. hindex_here (drop i (pre @ s)) = None) \<Longrightarrow>
   first_hindex (pre @ s) = first_hindex s"
proof (induction pre)
  case Nil
  then show ?case by simp
next
  case (Cons x xs)
  have "hindex_here (x # xs @ s) = None" using Cons.prems by force
  moreover have "\<forall>i < length xs. hindex_here (drop i (xs @ s)) = None"
  proof (intro allI impI)
    fix i assume "i < length xs"
    then have "hindex_here (drop (Suc i) ((x # xs) @ s)) = None"
      using Cons.prems by (metis Suc_less_eq length_Cons)
    then show "hindex_here (drop i (xs @ s)) = None" by simp
  qed
  ultimately show ?case using Cons.IH by simp
qed

lemma first_hindex_here: "hindex_here s = Some ds \<Longrightarrow> first_hindex s = Some ds"
  by (cases s) (simp_all add: hindex_here_def)

lemma first_hindex_none:
  "(\<forall>i < length s. hindex_here (drop i s) = None) \<Longrightarrow> first_hindex s = None"
  using first_hindex_skip [of s "[]"] by simp

lemma hindex_here_37:
  assumes "map to_lower w = ''h-index: 37''" and "post = [] \<or> \<not> is_digit (hd post)"
  shows "hindex_here (w @ post) = Some ''37''"
proof -
  obtain c1 c2 c3 c4 c5 c6 c7 c8 c9 c10 c11 where w: "w = [c1, c2, c3, c4, c5, c6, c7, c8, c9, c10, c11]"
    and l: "to_lower c1 = CHR ''h''" "to_lower c2 = CHR ''-''" "to_lower c3 = CHR ''i''"
      "to_lower c4 = CHR ''n''" "to_lower c5 = CHR ''d''" "to_lower c6 = CHR ''e''"
      "to_lower c7 = CHR ''x''" "to_lower c8 = CHR '':''" "to_lower c9 = CHR '' ''"
      "to_lower c10 = CHR ''3''" "to_lower c11 = CHR ''7''"
    using assms(1) by (auto simp: map_eq_Cons_conv)
  have e: "c2 = CHR ''-''" "c8 = CHR '':''" "c9 = CHR '' ''" "c10 = CHR ''3''" "c11 = CHR ''7''"
    using l by (auto intro!: to_lower_eq_nonletter simp: is_lower_def)
  have u: "to_lower (CHR ''H'') = CHR ''h''" "to_lower (CHR ''I'') = CHR ''i''"
    "to_lower (CHR ''-'') = CHR ''-''"
    by (simp_all add: to_lower_def)
  have t: "takeWhile is_digit post = []"
    using assms(2) by (cases post) auto
  have p1: "prefix_ci ''H'' (w @ post)"
    by (simp add: w l u)
  have p2: "prefix_ci ''-'' (drop 1 (w @ post))"
    by (simp add: w e u)
  have p3: "prefix_ci ''Index'' (drop 1 (drop 1 (w @ post)))"
    by (simp add: w l u) (simp add: to_lower_def)
  have d: "drop 5 (drop 1 (drop 1 (w @ post))) = [CHR '':'', CHR '' '', CHR ''3'', CHR ''7''] @ post"
    by (simp add: w e)
  have s: "takeWhile is_sep ([CHR '':'', CHR '' '', CHR ''3'', CHR ''7''] @ post) = '': ''"
    "dropWhile is_sep ([CHR '':'', CHR '' '', CHR ''3'', CHR ''7''] @ post) = ''37'' @ post"
    by (simp_all add: is_sep_def is_space_def)
  have g: "takeWhile is_digit (''37'' @ post) = ''37''"
    using t by (simp add: is_digit_def)
  show ?thesis
    unfolding hindex_here_def Let_def using p1 p2 p3 by (simp only: if_True d s g) simp
qed

lemma heuristic_extract_h_index_eq:
  "heuristic_extract env text = Inr p \<Longrightarrow> h_index p = first_hindex text"
  unfolding heuristic_extract_eq re_search_hindex by auto

lemma first_hindex_37:
  assumes t: "text = pre @ w @ post"
    and w: "map to_lower w = ''h-index: 37''"
    and n: "\<forall>i < length pre. hindex_here (drop i text) = None"
    and d: "post = [] \<or> \<not> is_digit (hd post)"
  shows "first_hindex text = Some ''37''"
proof -
  have "first_hindex (pre @ w @ post) = first_hindex (w @ post)"
    using n unfolding t by (rule first_hindex_skip)
  also have "\<dots> = Some ''37''"
    using hindex_here_37 [OF w d] by (rule first_hindex_here)
  finally show ?thesis unfolding t .
qed

text \<open>
  C5, as the claim states it, fails: the H-index is taken from the leftmost match, so a
  text in which \<open>H-Index: 37\<close> occurs after an earlier match yields the earlier digit
  run; and the digits may follow a colon directly, without whitespace.
\<close>

theorem h_index_earlier_match:
  "map_sum id h_index (heuristic_extract (stub_env ''{}'') ''HIndex:1 H-Index: 37'')
     = Inr (Some ''1'')
   \<and> map_sum id h_index (heuristic_extract (stub_env ''{}'') ''H-Index:5'')
     = Inr (Some ''5'')"
proof -
  have a: "first_hindex ''HIndex:1 H-Index: 37'' = Some ''1''" by code_simp
  have b: "first_hindex ''H-Index:5'' = Some ''5''" by code_simp
  show ?thesis
    unfolding heuristic_extract_eq re_search_hindex a b
    by (simp only: map_sum.simps CVProfile.select_convs simp_thms)
qed

text \<open>
  C5, amended. The H-index of the profile is the digit run captured at the leftmost
  place of the text where the rule applies: \<open>H\<close>, an optional hyphen, \<open>Index\<close> (in any
  case), one or more colons or whitespace characters, and the longest run of digits. An
  occurrence of \<open>H-Index: 37\<close>, in any case, yields \<open>37\<close> when the rule applies nowhere
  before it and no digit follows it; when the rule applies nowhere, the H-index is
  \<open>None\<close>.
\<close>

theorem heuristic_extract_h_index:
  assumes "heuristic_extract env text = Inr p"
  shows "h_index p = first_hindex text
       \<and> (\<forall>pre w post.
            text = pre @ w @ post \<and> map to_lower w = ''h-index: 37''
            \<and> (\<forall>i < length pre. hindex_here (drop i text) = None)
            \<and> (post = [] \<or> \<not> is_digit (hd post))
            \<longrightarrow> h_index p = Some ''37'')
       \<and> ((\<forall>i < length text. hindex_here (drop i text) = None) \<longrightarrow> h_index p = None)"
proof -
  have h: "h_index p = first_hindex text"
    using assms by (rule heuristic_extract_h_index_eq)
  have a: "h_index p = Some ''37''"
    if c: "text = pre @ w @ post \<and> map to_lower w = ''h-index: 37''
        \<and> (\<forall>i < length pre. hindex_here (drop i text) = None)
        \<and> (post = [] \<or> \<not> is_digit (hd post))" for pre w post
    unfolding h
    by (rule first_hindex_37 [OF conjunct1 [OF c] conjunct1 [OF conjunct2 [OF c]]
          conjunct1 [OF conjunct2 [OF conjunct2 [OF c]]]
          conjunct2 [OF conjunct2 [OF conjunct2 [OF c]]]])
  have b: "h_index p = None" if "\<forall>i < length text. hindex_here (drop i text) = None"
    unfolding h using that by (rule first_hindex_none)
  show ?thesis
    by (intro conjI allI impI) (rule h, erule a, erule b)
qed

theorem heuristic_extract_h_index_witness:
  "\<exists>p. heuristic_extract (stub_env ''{}'') ''CV h-INDEX: 37.'' = Inr p
     \<and> ''CV h-INDEX: 37.'' = ''CV '' @ ''h-INDEX: 37'' @ ''.''
     \<and> map to_lower ''h-INDEX: 37'' = ''h-index: 37''
     \<and> (\<forall>i < length ''CV ''. hindex_here (drop i ''CV h-INDEX: 37.'') = None)
     \<and> (''.'' = [] \<or> \<not> is_digit (hd ''.''))
     \<and> h_index p = Some ''37''
     \<and> h_index p = first_hindex ''CV h-INDEX: 37.''"
proof -
  obtain p where p: "heuristic_extract (stub_env ''{}'') ''CV h-INDEX: 37.'' = Inr p"
    using heuristic_extract_eq [of "stub_env ''{}''" "''CV h-INDEX: 37.''"] by (rule that)
  have a: "''CV h-INDEX: 37.'' = ''CV '' @ ''h-INDEX: 37'' @ ''.''"
    by (simp only: append.simps)
  have b: "map to_lower ''h-INDEX: 37'' = ''h-index: 37''"
    by code_simp
  have c: "\<forall>i < length ''CV ''. hindex_here (drop i ''CV h-INDEX: 37.'') = None"
    by code_simp
  have d: "''.'' = [] \<or> \<not> is_digit (hd ''.'')"
    by code_simp
  note t = heuristic_extract_h_index [OF p]
  have e: "h_index p = first_hindex ''CV h-INDEX: 37.''"
    by (rule conjunct1 [OF t])
  have f: "''CV h-INDEX: 37.'' = ''CV '' @ ''h-INDEX: 37'' @ ''.''
           \<and> map to_lower ''h-INDEX: 37'' = ''h-index: 37''
           \<and> (\<forall>i < length ''CV ''. hindex_here (drop i ''CV h-INDEX: 37.'') = None)
           \<and> (''.'' = [] \<or> \<not> is_digit (hd ''.''))
           \<longrightarrow> h_index p = Some ''37''"
    by (rule spec [OF spec [OF spec [OF conjunct1 [OF conjunct2 [OF t]]]]])
  have g: "h_index p = Some ''37''"
    by (rule mp [OF f]) (intro conjI a b c d)
  show ?thesis
    by (intro exI [of _ p] conjI) (rule p a b c d g e)+
qed


section \<open>The adapter\<close>

lemma get_llm_unsupported:
  "provider config \<noteq> ''openai'' \<Longrightarrow> provider config \<noteq> ''anthropic'' \<Longrightarrow>
   get_llm config = Inl unsupported_provider"
  by (simp add: get_llm_def unsupported_provider_def)

text \<open>
  C8. For a configuration whose provider is neither \<open>openai\<close> nor \<open>anthropic\<close>, \<open>get_llm\<close>
  fails at once with the error \<open>ValueError("Unsupported provider. ...")\<close> (the
  configuration error of the specification), and each of the three orchestrators hands
  that error on with the backend state untouched: no backend call is made, whatever the
  backend. The witness runs the call-counting stub: its counter stays at zero.
\<close>

theorem get_llm_unsupported_no_call:
  assumes "provider config \<noteq> ''openai''" and "provider config \<noteq> ''anthropic''"
  shows "get_llm config = Inl unsupported_provider
       \<and> llm_structured_parse env text config s = (Inl unsupported_provider, s)
       \<and> generate_match_report env profile target config s = (Inl unsupported_provider, s)
       \<and> generate_outreach env profile institute_value language config s
           = (Inl unsupported_provider, s)"
  using get_llm_unsupported [OF assms]
  by (simp add: llm_structured_parse_def generate_match_report_def generate_outreach_def)

theorem get_llm_unsupported_no_call_witness:
  "provider unsupported_config \<noteq> ''openai'' \<and> provider unsupported_config \<noteq> ''anthropic''
   \<and> get_llm unsupported_config
       = Inl (ValueError ''Unsupported provider. Choose 'openai' or 'anthropic'.'')
   \<and> snd (llm_structured_parse (stub_env ''{}'') ''H-Index: 37'' unsupported_config 0) = 0
   \<and> snd (generate_match_report (stub_env ''{}'') sample_profile ''immunology''
            unsupported_config 0) = 0
   \<and> snd (generate_outreach (stub_env ''{}'') sample_profile ''platforms'' ''English''
            unsupported_config 0) = 0"
proof -
  have a: "provider unsupported_config \<noteq> ''openai''"
    by (simp add: unsupported_config_def)
  have b: "provider unsupported_config \<noteq> ''anthropic''"
    by (simp add: unsupported_config_def)
  show ?thesis
    using a b
      get_llm_unsupported_no_call [OF a b, of "stub_env ''{}''" "''H-Index: 37''" 0
        sample_profile "''immunology''" "''platforms''" "''English''"]
    by (simp add: unsupported_provider_def)
qed

section \<open>The structured parse orchestrator\<close>

lemma llm_structured_parse_reply:
  assumes "get_llm config = Inr client"
    and "invoke env client
           [SystemMessage (parsing_prompt env), HumanMessage (take 12000 text)] s
         = (Inr content, s')"
  shows "llm_structured_parse env text config s =
         (case json_loads env content of
            None \<Rightarrow> (fallback env text, s')
          | Some parsed \<Rightarrow>
              (case CVProfile_parsed env parsed of
                 Inl _ \<Rightarrow> (fallback env text, s')
               | Inr profile \<Rightarrow> (Inr profile, s')))"
  using assms by (simp add: llm_structured_parse_def)

lemma heuristic_extract_notes:
  "\<exists>base. heuristic_extract env text = Inr base
     \<and> notes_field base = ''Heuristic extraction; refine with LLM for richer details.''"
  by (simp add: heuristic_extract_eq)

lemma llm_structured_parse_falls_back:
  assumes "get_llm config = Inr client"
    and "invoke env client
           [SystemMessage (parsing_prompt env), HumanMessage (take 12000 text)] s
         = (Inr content, s')"
    and "json_loads env content = None
         \<or> (\<exists>parsed e. json_loads env content = Some parsed
                        \<and> CVProfile_parsed env parsed = Inl e)"
  shows "llm_structured_parse env text config s = (fallback env text, s')"
  using assms(3)
proof
  assume "json_loads env content = None"
  then show ?thesis
    by (simp add: llm_structured_parse_reply [OF assms(1,2)])
next
  assume "\<exists>parsed e. json_loads env content = Some parsed
                     \<and> CVProfile_parsed env parsed = Inl e"
  then obtain parsed e where "json_loads env content = Some parsed"
    and "CVProfile_parsed env parsed = Inl e" by blast
  then show ?thesis
    by (simp add: llm_structured_parse_reply [OF assms(1,2)])
qed

lemma key_publications_str_rejected:
  "CVProfile_parsed env (PDict ((''key_publications'', PStr x) # kw)) = Inl ValidationError"
  by (simp add: CVProfile_parsed_def CVProfile_new_def validate_list_def with_default_def
        split: option.splits)

lemma get_llm_openai: "get_llm openai_config = Inr (ChatOpenAI ''sk-test'' ''gpt-4o-mini'')"
  by (simp add: get_llm_def openai_config_def)

lemma stub_invoke: "invoke (stub_env reply) client messages n = (Inr reply, Suc n)"
  by (simp add: stub_env_def)

lemma stub_json_loads: "json_loads (stub_env reply) = stub_loads"
  by (simp add: stub_env_def)

lemma failing_invoke: "invoke failing_env client messages n = (Inl (BackendError ''rate limit''), Suc n)"
  by (simp add: failing_env_def stub_env_def)

lemma stub_loads_not_json: "stub_loads ''Not JSON'' = None"
  by (simp add: stub_loads_def)

lemma stub_loads_key_publications:
  \<open>stub_loads ''{"key_publications": "Nature"}''
   = Some (PDict [(''key_publications'', PStr ''Nature'')])\<close>
  by (simp add: stub_loads_def)

text \<open>
  C1, as the claim states it, fails: \<open>get_llm\<close> and \<open>llm.invoke\<close> are called before the
  \<open>try\<close> block, so the error of an unsupported provider and the failure of a backend
  call both reach the caller of \<open>llm_structured_parse\<close>.
\<close>

theorem llm_structured_parse_raises:
  "llm_structured_parse (stub_env ''{}'') ''H-Index: 37'' unsupported_config 0
     = (Inl (ValueError ''Unsupported provider. Choose 'openai' or 'anthropic'.''), 0)
   \<and> llm_structured_parse failing_env ''H-Index: 37'' openai_config 0
     = (Inl (BackendError ''rate limit''), Suc 0)"
  by (simp add: llm_structured_parse_def get_llm_def unsupported_config_def openai_config_def
        failing_env_def stub_env_def)

text \<open>
  C1, amended. When the provider is supported and the backend call returns a reply,
  \<open>llm_structured_parse\<close> returns a profile and raises nothing, whatever the reply: on
  any decode or validation error the profile is the heuristic fallback. The error of an
  unsupported provider and the failure of the backend call are handed to the caller.
\<close>

theorem llm_structured_parse_total_on_reply:
  "(get_llm config = Inr client
      \<and> invoke env client
           [SystemMessage (parsing_prompt env), HumanMessage (take 12000 text)] s
         = (Inr content, s')
      \<longrightarrow> (\<exists>p. llm_structured_parse env text config s = (Inr p, s')
             \<and> (json_loads env content = None
                  \<or> (\<exists>parsed e. json_loads env content = Some parsed
                                 \<and> CVProfile_parsed env parsed = Inl e)
                 \<longrightarrow> fallback env text = Inr p)))
   \<and> (get_llm config = Inl e \<longrightarrow> llm_structured_parse env text config s = (Inl e, s))
   \<and> (get_llm config = Inr client
      \<and> invoke env client
           [SystemMessage (parsing_prompt env), HumanMessage (take 12000 text)] s
         = (Inl e, s')
      \<longrightarrow> llm_structured_parse env text config s = (Inl e, s'))"
proof (intro conjI impI)
  assume a: "get_llm config = Inr client
      \<and> invoke env client
           [SystemMessage (parsing_prompt env), HumanMessage (take 12000 text)] s
         = (Inr content, s')"
  note r = llm_structured_parse_reply [OF conjunct1 [OF a] conjunct2 [OF a]]
  obtain base where h: "heuristic_extract env text = Inr base"
    using heuristic_extract_notes [of env "text"] by blast
  then obtain q where q: "fallback env text = Inr q"
    by (simp add: fallback_def)
  show "\<exists>p. llm_structured_parse env text config s = (Inr p, s')
             \<and> (json_loads env content = None
                  \<or> (\<exists>parsed e. json_loads env content = Some parsed
                                 \<and> CVProfile_parsed env parsed = Inl e)
                 \<longrightarrow> fallback env text = Inr p)"
  proof (cases "json_loads env content")
    case None
    then show ?thesis using q r by simp
  next
    case (Some parsed)
    show ?thesis
    proof (cases "CVProfile_parsed env parsed")
      case (Inl e)
      then show ?thesis using Some q r by simp
    next
      case (Inr profile)
      then show ?thesis using Some r by simp
    qed
  qed
next
  assume "get_llm config = Inl e"
  then show "llm_structured_parse env text config s = (Inl e, s)"
    by (simp add: llm_structured_parse_def)
next
  assume "get_llm config = Inr client
      \<and> invoke env client
           [SystemMessage (parsing_prompt env), HumanMessage (take 12000 text)] s
         = (Inl e, s')"
  then show "llm_structured_parse env text config s = (Inl e, s')"
    by (simp add: llm_structured_parse_def)
qed

theorem llm_structured_parse_total_on_reply_witness:
  "(\<exists>p. llm_structured_parse (stub_env ''Not JSON'') ''H-Index: 37'' openai_config 0
          = (Inr p, Suc 0)
       \<and> fallback (stub_env ''Not JSON'') ''H-Index: 37'' = Inr p)
   \<and> get_llm unsupported_config = Inl unsupported_provider
   \<and> llm_structured_parse (stub_env ''{}'') ''H-Index: 37'' unsupported_config 0
       = (Inl unsupported_provider, 0)
   \<and> llm_structured_parse failing_env ''H-Index: 37'' openai_config 0
       = (Inl (BackendError ''rate limit''), Suc 0)"
proof (intro conjI)
  let ?env = "stub_env ''Not JSON''"
  let ?client = "ChatOpenAI ''sk-test'' ''gpt-4o-mini''"
  note t = llm_structured_parse_total_on_reply
             [of openai_config ?client ?env "''H-Index: 37''" 0 "''Not JSON''" "Suc 0"]
  have a: "get_llm openai_config = Inr ?client
           \<and> invoke ?env ?client
                [SystemMessage (parsing_prompt ?env), HumanMessage (take 12000 ''H-Index: 37'')] 0
              = (Inr ''Not JSON'', Suc 0)"
    by (intro conjI get_llm_openai stub_invoke)
  have c: "json_loads ?env ''Not JSON'' = None
           \<or> (\<exists>parsed e. json_loads ?env ''Not JSON'' = Some parsed
                  \<and> CVProfile_parsed ?env parsed = Inl e)"
    by (rule disjI1) (simp only: stub_json_loads stub_loads_not_json)
  obtain p where p: "llm_structured_parse ?env ''H-Index: 37'' openai_config 0 = (Inr p, Suc 0)"
    and f: "json_loads ?env ''Not JSON'' = None
           \<or> (\<exists>parsed e. json_loads ?env ''Not JSON'' = Some parsed
                  \<and> CVProfile_parsed ?env parsed = Inl e)
           \<longrightarrow> fallback ?env ''H-Index: 37'' = Inr p"
    using mp [OF conjunct1 [OF t] a] by (elim exE conjE)
  show "\<exists>p. llm_structured_parse ?env ''H-Index: 37'' openai_config 0 = (Inr p, Suc 0)
       \<and> fallback ?env ''H-Index: 37'' = Inr p"
    by (intro exI [of _ p] conjI) (rule p, rule mp [OF f c])
next
  show u: "get_llm unsupported_config = Inl unsupported_provider"
    by (simp add: get_llm_def unsupported_config_def unsupported_provider_def)
  note t = llm_structured_parse_total_on_reply
             [of unsupported_config _ "stub_env ''{}''" "''H-Index: 37''" 0 _ _ unsupported_provider]
  show "llm_structured_parse (stub_env ''{}'') ''H-Index: 37'' unsupported_config 0
        = (Inl unsupported_provider, 0)"
    by (rule mp [OF conjunct1 [OF conjunct2 [OF t]] u])
next
  let ?client = "ChatOpenAI ''sk-test'' ''gpt-4o-mini''"
  note t = llm_structured_parse_total_on_reply
             [of openai_config ?client failing_env "''H-Index: 37''" 0 _ "Suc 0"
                 "BackendError ''rate limit''"]
  have a: "get_llm openai_config = Inr ?client
           \<and> invoke failing_env ?client
                [SystemMessage (parsing_prompt failing_env),
                 HumanMessage (take 12000 ''H-Index: 37'')] 0
              = (Inl (BackendError ''rate limit''), Suc 0)"
    by (intro conjI get_llm_openai failing_invoke)
  show "llm_structured_parse failing_env ''H-Index: 37'' openai_config 0
        = (Inl (BackendError ''rate limit''), Suc 0)"
    by (rule mp [OF conjunct2 [OF conjunct2 [OF t]] a])
qed

text \<open>
  C2. When the reply is not valid JSON, or is valid JSON from which the profile cannot
  be constructed (the construction raises, as it does when \<open>key_publications\<close> is a
  string), \<open>llm_structured_parse\<close> returns the profile \<open>heuristic_extract\<close> gives for the
  same text with the degradation annotation appended to its notes: every other field is
  unchanged, and the notes hold the heuristic note followed by the annotation. The
  witness runs both cases.
\<close>

theorem llm_structured_parse_fallback:
  assumes "get_llm config = Inr client"
    and "invoke env client
           [SystemMessage (parsing_prompt env), HumanMessage (take 12000 text)] s
         = (Inr content, s')"
    and "json_loads env content = None
         \<or> (\<exists>parsed e. json_loads env content = Some parsed
                        \<and> CVProfile_parsed env parsed = Inl e)"
  shows "\<exists>base. heuristic_extract env text = Inr base
          \<and> notes_field base = ''Heuristic extraction; refine with LLM for richer details.''
          \<and> llm_structured_parse env text config s
              = (Inr (base\<lparr>notes_field :=
                         notes_field base @ '' | LLM parsing failed to return valid JSON.''\<rparr>),
                 s')"
proof -
  obtain base where h: "heuristic_extract env text = Inr base"
    and n: "notes_field base = ''Heuristic extraction; refine with LLM for richer details.''"
    using heuristic_extract_notes [of env "text"] by blast
  have f: "fallback env text
           = Inr (base\<lparr>notes_field :=
                    notes_field base @ '' | LLM parsing failed to return valid JSON.''\<rparr>)"
    by (simp add: fallback_def h degradation_def)
  have r: "llm_structured_parse env text config s = (fallback env text, s')"
    by (rule llm_structured_parse_falls_back [OF assms])
  show ?thesis
    by (intro exI [of _ base] conjI) (rule h, rule n, simp only: r f)
qed

theorem llm_structured_parse_fallback_witness:
  \<open>(\<exists>base. heuristic_extract (stub_env ''Not JSON'') ''H-Index: 37'' = Inr base
      \<and> notes_field base = ''Heuristic extraction; refine with LLM for richer details.''
      \<and> llm_structured_parse (stub_env ''Not JSON'') ''H-Index: 37'' openai_config 0
          = (Inr (base\<lparr>notes_field :=
                     notes_field base @ '' | LLM parsing failed to return valid JSON.''\<rparr>),
             Suc 0))
   \<and> (\<exists>base. heuristic_extract (stub_env ''{"key_publications": "Nature"}'') ''H-Index: 37''
             = Inr base
      \<and> notes_field base = ''Heuristic extraction; refine with LLM for richer details.''
      \<and> llm_structured_parse (stub_env ''{"key_publications": "Nature"}'') ''H-Index: 37''
            openai_config 0
          = (Inr (base\<lparr>notes_field :=
                     notes_field base @ '' | LLM parsing failed to return valid JSON.''\<rparr>),
             Suc 0))\<close>
proof (rule conjI)
  have c: "json_loads (stub_env ''Not JSON'') ''Not JSON'' = None
           \<or> (\<exists>parsed e. json_loads (stub_env ''Not JSON'') ''Not JSON'' = Some parsed
                  \<and> CVProfile_parsed (stub_env ''Not JSON'') parsed = Inl e)"
    by (rule disjI1) (simp only: stub_json_loads stub_loads_not_json)
  show "\<exists>base. heuristic_extract (stub_env ''Not JSON'') ''H-Index: 37'' = Inr base
      \<and> notes_field base = ''Heuristic extraction; refine with LLM for richer details.''
      \<and> llm_structured_parse (stub_env ''Not JSON'') ''H-Index: 37'' openai_config 0
          = (Inr (base\<lparr>notes_field :=
                     notes_field base @ '' | LLM parsing failed to return valid JSON.''\<rparr>),
             Suc 0)"
    by (rule llm_structured_parse_fallback [OF get_llm_openai stub_invoke c])
next
  let ?r = \<open>''{"key_publications": "Nature"}''\<close>
  have "json_loads (stub_env ?r) ?r = Some (PDict [(''key_publications'', PStr ''Nature'')])
        \<and> CVProfile_parsed (stub_env ?r) (PDict [(''key_publications'', PStr ''Nature'')])
            = Inl ValidationError"
    by (rule conjI) (simp only: stub_json_loads stub_loads_key_publications,
          rule key_publications_str_rejected)
  then have c: "json_loads (stub_env ?r) ?r = None
           \<or> (\<exists>parsed e. json_loads (stub_env ?r) ?r = Some parsed
                  \<and> CVProfile_parsed (stub_env ?r) parsed = Inl e)"
    by (intro disjI2 exI)
  show "\<exists>base. heuristic_extract (stub_env ?r) ''H-Index: 37'' = Inr base
      \<and> notes_field base = ''Heuristic extraction; refine with LLM for richer details.''
      \<and> llm_structured_parse (stub_env ?r) ''H-Index: 37'' openai_config 0
          = (Inr (base\<lparr>notes_field :=
                     notes_field base @ '' | LLM parsing failed to return valid JSON.''\<rparr>),
             Suc 0)"
    by (rule llm_structured_parse_fallback [OF get_llm_openai stub_invoke c])
qed

lemma wd_str:
  "with_default d exact_str x = Some y \<Longrightarrow> with_default d (validate_str env) x = Some y"
  by (cases x; cases "the x") (simp_all add: with_default_def exact_str_def validate_str_def)

lemma wd_opt_str:
  "with_default d exact_opt_str x = Some y \<Longrightarrow>
   with_default d (validate_opt_str env) x = Some y"
  by (cases x; cases "the x")
     (simp_all add: with_default_def exact_opt_str_def validate_opt_str_def)

lemma wd_opt_int:
  "with_default d exact_opt_int x = Some y \<Longrightarrow>
   with_default d (validate_opt_int env) x = Some y"
  by (cases x; cases "the x")
     (simp_all add: with_default_def exact_opt_int_def validate_opt_int_def)

lemma exact_Publication_validate:
  assumes "exact_Publication v = Some p"
  shows "validate_Publication env v = Some p"
proof (cases v)
  case (PDict kw)
  show ?thesis
    using assms
    unfolding PDict exact_Publication_def validate_Publication_def Publication_new_def
    apply (cases "with_default ''N/A'' exact_str (map_of kw ''title'')"; simp)
    apply (cases "with_default ''N/A'' exact_str (map_of kw ''journal'')"; simp)
    apply (cases "with_default None exact_opt_int (map_of kw ''year'')"; simp add: wd_str wd_opt_int)
    done
qed (use assms in \<open>simp_all add: exact_Publication_def\<close>)

lemma exact_Grant_validate:
  assumes "exact_Grant v = Some g"
  shows "validate_Grant env v = Some g"
proof (cases v)
  case (PDict kw)
  show ?thesis
    using assms
    unfolding PDict exact_Grant_def validate_Grant_def Grant_new_def
    apply (cases "with_default ''N/A'' exact_str (map_of kw ''title'')"; simp)
    apply (cases "with_default None exact_opt_str (map_of kw ''amount'')"; simp)
    apply (cases "with_default None exact_opt_int (map_of kw ''year'')"; simp)
    apply (cases "with_default None exact_opt_str (map_of kw ''sponsor'')";
           simp add: wd_str wd_opt_int wd_opt_str)
    done
qed (use assms in \<open>simp_all add: exact_Grant_def\<close>)

lemma wd_list:
  assumes "with_default d (exact_list f) x = Some ys"
    and "\<And>v y. f v = Some y \<Longrightarrow> g v = Some y"
  shows "with_default d (validate_list g) x = Some ys"
proof (cases x)
  case None
  then show ?thesis using assms(1) by (simp add: with_default_def)
next
  case (Some v)
  then have "exact_list f v = Some ys" using assms(1) by (simp add: with_default_def)
  then have "validate_list g v = Some ys"
    using assms(2)
    by (cases v) (simp_all add: exact_list_def validate_list_def those_map_mono [of f _ ys g])
  then show ?thesis using Some by (simp add: with_default_def)
qed

lemma exact_str_validate: "exact_str v = Some s \<Longrightarrow> validate_str env v = Some s"
  by (cases v) (simp_all add: exact_str_def validate_str_def)

lemma schema_reply_fields:
  assumes "schema_reply (PDict kw) = Some p"
  shows "with_default ''Unknown'' exact_str (map_of kw ''name'') = Some (name p)
       \<and> with_default ''N/A'' exact_str (map_of kw ''current_institution'')
           = Some (current_institution p)
       \<and> with_default ''N/A'' exact_str (map_of kw ''estimated_ranking'')
           = Some (estimated_ranking p)
       \<and> with_default None exact_opt_str (map_of kw ''h_index'') = Some (h_index p)
       \<and> with_default [] (exact_list exact_str) (map_of kw ''research_focus_keywords'')
           = Some (research_focus_keywords p)
       \<and> with_default [] (exact_list exact_Publication) (map_of kw ''key_publications'')
           = Some (key_publications p)
       \<and> with_default [] (exact_list exact_Grant) (map_of kw ''grants'') = Some (grants p)
       \<and> with_default [] exact_str (map_of kw ''notes'') = Some (notes_field p)"
  using assms unfolding schema_reply_def
  apply (cases "with_default ''Unknown'' exact_str (map_of kw ''name'')"; simp)
  apply (cases "with_default ''N/A'' exact_str (map_of kw ''current_institution'')"; simp)
  apply (cases "with_default ''N/A'' exact_str (map_of kw ''estimated_ranking'')"; simp)
  apply (cases "with_default None exact_opt_str (map_of kw ''h_index'')"; simp)
  apply (cases "with_default [] (exact_list exact_str) (map_of kw ''research_focus_keywords'')";
         simp)
  apply (cases "with_default [] (exact_list exact_Publication) (map_of kw ''key_publications'')";
         simp)
  apply (cases "with_default [] (exact_list exact_Grant) (map_of kw ''grants'')"; simp)
  apply (cases "with_default [] exact_str (map_of kw ''notes'')"; simp)
  apply auto
  done

lemma wd_list_str:
  "with_default d (exact_list exact_str) x = Some ys \<Longrightarrow>
   with_default d (validate_list (validate_str env)) x = Some ys"
  by (erule wd_list) (rule exact_str_validate)

lemma wd_list_Publication:
  "with_default d (exact_list exact_Publication) x = Some ys \<Longrightarrow>
   with_default d (validate_list (validate_Publication env)) x = Some ys"
  by (erule wd_list) (rule exact_Publication_validate)

lemma wd_list_Grant:
  "with_default d (exact_list exact_Grant) x = Some ys \<Longrightarrow>
   with_default d (validate_list (validate_Grant env)) x = Some ys"
  by (erule wd_list) (rule exact_Grant_validate)

lemma schema_reply_validates:
  assumes "schema_reply reply = Some p"
  shows "CVProfile_parsed env reply = Inr p"
proof (cases reply)
  case (PDict kw)
  note f = schema_reply_fields [OF assms [unfolded PDict]]
  have n: "with_default ''Unknown'' (validate_str env) (map_of kw ''name'') = Some (name p)"
    using f by (intro wd_str) simp
  have ci: "with_default ''N/A'' (validate_str env) (map_of kw ''current_institution'')
            = Some (current_institution p)"
    using f by (intro wd_str) simp
  have er: "with_default ''N/A'' (validate_str env) (map_of kw ''estimated_ranking'')
            = Some (estimated_ranking p)"
    using f by (intro wd_str) simp
  have h: "with_default None (validate_opt_str env) (map_of kw ''h_index'') = Some (h_index p)"
    using f by (intro wd_opt_str) simp
  have ks: "with_default [] (validate_list (validate_str env))
              (map_of kw ''research_focus_keywords'') = Some (research_focus_keywords p)"
    using f by (intro wd_list_str) simp
  have ps: "with_default [] (validate_list (validate_Publication env))
              (map_of kw ''key_publications'') = Some (key_publications p)"
    using f by (intro wd_list_Publication) simp
  have gs: "with_default [] (validate_list (validate_Grant env)) (map_of kw ''grants'')
            = Some (grants p)"
    using f by (intro wd_list_Grant) simp
  have nt: "with_default [] (validate_str env) (map_of kw ''notes'') = Some (notes_field p)"
    using f by (intro wd_str) simp
  have "CVProfile_new env kw = Inr p"
    unfolding CVProfile_new_def n ci er h ks ps gs nt by simp
  then show ?thesis by (simp add: PDict CVProfile_parsed_def)
qed (use assms in \<open>simp_all add: schema_reply_def\<close>)

lemma schema_reply_notes_default:
  assumes "schema_reply (PDict kw) = Some p" and "map_of kw ''notes'' = None"
  shows "notes_field p = []"
  using schema_reply_fields [OF assms(1)] assms(2) by (simp add: with_default_def)

lemma schema_reply_dict: "schema_reply (CVProfile_dict q) = Some q"
proof -
  have pub: "\<And>x. exact_Publication (Publication_dict x) = Some x"
    subgoal for x
      by (cases "year x")
         (simp_all add: exact_Publication_def Publication_dict_def with_default_def
            exact_str_def exact_opt_int_def)
    done
  have gr: "\<And>x. exact_Grant (Grant_dict x) = Some x"
    subgoal for x
      by (cases "amount x"; cases "grant_year x"; cases "sponsor x")
         (simp_all add: exact_Grant_def Grant_dict_def with_default_def
            exact_str_def exact_opt_int_def exact_opt_str_def)
    done
  have ks: "those (map exact_str (map PStr (research_focus_keywords q)))
            = Some (research_focus_keywords q)"
    by (rule those_map_Some) (simp add: exact_str_def)
  have ps: "those (map exact_Publication (map Publication_dict (key_publications q)))
            = Some (key_publications q)"
    by (rule those_map_Some) (simp add: pub)
  have gs: "those (map exact_Grant (map Grant_dict (grants q))) = Some (grants q)"
    by (rule those_map_Some) (simp add: gr)
  show ?thesis
    using ks ps gs
    by (cases "h_index q")
       (simp_all add: schema_reply_def CVProfile_dict_def with_default_def exact_str_def
          exact_opt_str_def exact_list_def)
qed

text \<open>
  C6. When the reply is valid JSON that matches the extraction reply schema exactly
  (\<open>schema_reply\<close> reads it strictly and fills the declared defaults for the fields that
  are left out), \<open>llm_structured_parse\<close> returns the profile with exactly those fields;
  in particular the notes are the empty string when the reply has no \<open>notes\<close>.
\<close>

theorem llm_structured_parse_schema_reply:
  assumes "get_llm config = Inr client"
    and "invoke env client
           [SystemMessage (parsing_prompt env), HumanMessage (take 12000 text)] s
         = (Inr content, s')"
    and "json_loads env content = Some reply"
    and "schema_reply reply = Some p"
  shows "llm_structured_parse env text config s = (Inr p, s')
       \<and> (\<forall>kw. reply = PDict kw \<and> map_of kw ''notes'' = None \<longrightarrow> notes_field p = [])"
proof (intro conjI allI impI)
  show "llm_structured_parse env text config s = (Inr p, s')"
    unfolding llm_structured_parse_reply [OF assms(1,2)]
    by (simp add: assms(3) schema_reply_validates [OF assms(4)])
  show "notes_field p = []" if "reply = PDict kw \<and> map_of kw ''notes'' = None" for kw
    using assms(4) that by (auto intro: schema_reply_notes_default)
qed

theorem llm_structured_parse_schema_reply_witness:
  \<open>stub_loads ''{"name": "Ada Zhang", "h_index": "42", "key_publications": [{"title": "Atlas", "journal": "Science", "year": 2022}]}''
     = Some (PDict [(''name'', PStr ''Ada Zhang''),
                    (''h_index'', PStr ''42''),
                    (''key_publications'',
                       PList [PDict [(''title'', PStr ''Atlas''),
                                     (''journal'', PStr ''Science''),
                                     (''year'', PInt 2022)]])])
   \<and> llm_structured_parse
        (stub_env ''{"name": "Ada Zhang", "h_index": "42", "key_publications": [{"title": "Atlas", "journal": "Science", "year": 2022}]}'')
        ''H-Index: 37'' openai_config 0
      = (Inr \<lparr>name = ''Ada Zhang'', current_institution = ''N/A'', estimated_ranking = ''N/A'',
               h_index = Some ''42'', research_focus_keywords = [],
               key_publications = [\<lparr>title = ''Atlas'', journal = ''Science'', year = Some 2022\<rparr>],
               grants = [], notes_field = []\<rparr>, Suc 0)
   \<and> map_of [(''name'', PStr ''Ada Zhang''),
              (''h_index'', PStr ''42''),
              (''key_publications'',
                 PList [PDict [(''title'', PStr ''Atlas''),
                               (''journal'', PStr ''Science''),
                               (''year'', PInt 2022)]])] ''notes'' = None
   \<and> notes_field
        \<lparr>name = ''Ada Zhang'', current_institution = ''N/A'', estimated_ranking = ''N/A'',
         h_index = Some ''42'', research_focus_keywords = [],
         key_publications = [\<lparr>title = ''Atlas'', journal = ''Science'', year = Some 2022\<rparr>],
         grants = [], notes_field = []\<rparr> = []\<close>
proof -
  let ?r = \<open>''{"name": "Ada Zhang", "h_index": "42", "key_publications": [{"title": "Atlas", "journal": "Science", "year": 2022}]}''\<close>
  let ?kw = "[(''name'', PStr ''Ada Zhang''),
              (''h_index'', PStr ''42''),
              (''key_publications'',
                 PList [PDict [(''title'', PStr ''Atlas''),
                               (''journal'', PStr ''Science''),
                               (''year'', PInt 2022)]])]"
  let ?p = "\<lparr>name = ''Ada Zhang'', current_institution = ''N/A'', estimated_ranking = ''N/A'',
             h_index = Some ''42'', research_focus_keywords = [],
             key_publications = [\<lparr>title = ''Atlas'', journal = ''Science'', year = Some 2022\<rparr>],
             grants = [], notes_field = []\<rparr>"
  have a: "stub_loads ?r = Some (PDict ?kw)"
    by (simp add: stub_loads_def)
  have a': "json_loads (stub_env ?r) ?r = Some (PDict ?kw)"
    by (simp only: stub_json_loads a)
  have b: "schema_reply (PDict ?kw) = Some ?p"
    by (simp add: schema_reply_def with_default_def exact_str_def exact_opt_str_def
          exact_opt_int_def exact_list_def exact_Publication_def)
  note t = llm_structured_parse_schema_reply
             [OF get_llm_openai stub_invoke a' b, of "''H-Index: 37''" 0]
  have n: "map_of ?kw ''notes'' = None"
    by simp
  have d: "notes_field ?p = []"
    by (rule mp [OF spec [OF conjunct2 [OF t], of ?kw]]) (intro conjI refl n)
  show ?thesis
    by (intro conjI) (rule a, rule conjunct1 [OF t], rule n, rule d)
qed


section \<open>The analysis orchestrator\<close>

text \<open>
  C9. When the backend's reply cannot be decoded as JSON, \<open>generate_match_report\<close>
  returns the degraded report: the score is \<open>N/A\<close>, the reasoning is the reply text
  itself, and the three lists are empty. The witness is the reply \<open>Not JSON\<close>.
\<close>

theorem generate_match_report_degraded:
  assumes "get_llm config = Inr client"
    and "invoke env client
           [SystemMessage (matching_prompt env (json_dumps env (CVProfile_dict profile)) target)] s
         = (Inr content, s')"
    and "json_loads env content = None"
  shows "generate_match_report env profile target config s
         = (Inr (PDict [(''suitability_score'', PStr ''N/A''),
                        (''reasoning'', PStr content),
                        (''strengths'', PList []),
                        (''gaps'', PList []),
                        (''recommended_projects'', PList [])]), s')"
  using assms by (simp add: generate_match_report_def degraded_report_def)

theorem generate_match_report_degraded_witness:
  "generate_match_report (stub_env ''Not JSON'') sample_profile ''immunology'' openai_config 0
   = (Inr (PDict [(''suitability_score'', PStr ''N/A''),
                  (''reasoning'', PStr ''Not JSON''),
                  (''strengths'', PList []),
                  (''gaps'', PList []),
                  (''recommended_projects'', PList [])]), 1)"
proof -
  have a: "get_llm openai_config = Inr (ChatOpenAI ''sk-test'' ''gpt-4o-mini'')"
    by (simp add: get_llm_def openai_config_def)
  have b: "invoke (stub_env ''Not JSON'') (ChatOpenAI ''sk-test'' ''gpt-4o-mini'')
             [SystemMessage (matching_prompt (stub_env ''Not JSON'')
                (json_dumps (stub_env ''Not JSON'') (CVProfile_dict sample_profile))
                ''immunology'')] 0
           = (Inr ''Not JSON'', 1)"
    by (simp add: stub_env_def)
  have c: "json_loads (stub_env ''Not JSON'') ''Not JSON'' = None"
    by (simp add: stub_env_def stub_loads_def)
  show ?thesis
    by (rule generate_match_report_degraded [OF a b c])
qed

text \<open>
  C10. When the backend's reply decodes as JSON, \<open>generate_match_report\<close> returns the
  decoded value as it is, whatever its shape; the reply schema is not checked and the
  degraded report is not built. The witness is the reply \<open>42\<close>, a bare number.
\<close>

theorem generate_match_report_as_is:
  assumes "get_llm config = Inr client"
    and "invoke env client
           [SystemMessage (matching_prompt env (json_dumps env (CVProfile_dict profile)) target)] s
         = (Inr content, s')"
    and "json_loads env content = Some report"
  shows "generate_match_report env profile target config s = (Inr report, s')"
  using assms by (simp add: generate_match_report_def)

theorem generate_match_report_as_is_witness:
  "generate_match_report (stub_env ''42'') sample_profile ''immunology'' openai_config 0
   = (Inr (PInt 42), 1)"
proof -
  have a: "get_llm openai_config = Inr (ChatOpenAI ''sk-test'' ''gpt-4o-mini'')"
    by (simp add: get_llm_def openai_config_def)
  have b: "invoke (stub_env ''42'') (ChatOpenAI ''sk-test'' ''gpt-4o-mini'')
             [SystemMessage (matching_prompt (stub_env ''42'')
                (json_dumps (stub_env ''42'') (CVProfile_dict sample_profile))
                ''immunology'')] 0
           = (Inr ''42'', 1)"
    by (simp add: stub_env_def)
  have c: "json_loads (stub_env ''42'') ''42'' = Some (PInt 42)"
    by (simp add: stub_env_def stub_loads_def)
  show ?thesis
    by (rule generate_match_report_as_is [OF a b c])
qed

end
